theory Spec2Isabelle
  imports Complex_Main "HOL-Library.Char_ord" "HOL-Library.List_Lexorder"
begin

section \<open>Conventions of the embedding\<close>

text \<open>
  The scripts under \<^verbatim>\<open>scripts/\<close> are embedded function by function.
  \<^item> A Python \<^verbatim>\<open>float\<close> is a \<^typ>\<open>real\<close> in the arithmetic of the scores: rounding and
    non-finite values are outside that part of the model. The configuration loader, whose
    conversions can raise on them, has the infinities, NaN and the integers beyond the
    range of a float as inputs. A Python \<^verbatim>\<open>int\<close> is an \<^typ>\<open>int\<close>.
  \<^item> A Python \<^verbatim>\<open>str\<close> is a \<^typ>\<open>string\<close>, one \<^typ>\<open>char\<close> per character; the three
    literal characters of the sources beyond ASCII (em dash, check mark, cross mark) are
    written as their UTF-8 bytes.
  \<^item> An exception that leaves a function is the \<open>Inl\<close> branch of its result.
  \<^item> Functions of the Python library whose results are not computed by the repository
    (number formatting, \<^verbatim>\<open>str()\<close> of a decoded JSON value, parsing a number out of a
    string, \<^verbatim>\<open>round\<close>, \<^verbatim>\<open>str.upper\<close>) are taken as parameters, collected in the record
    \<open>pylib\<close>.
\<close>

datatype py_error =
    ZeroDivisionError
  | AttributeError
  | TypeError
  | ValueError
  | OverflowError
  | KeyError
  | OSError

section \<open>score.py: the interpolation helper\<close>

text \<open>Python's true division raises on a zero divisor.\<close>

definition py_div :: "real \<Rightarrow> real \<Rightarrow> py_error + real" where
  "py_div x y = (if y = 0 then Inl ZeroDivisionError else Inr (x / y))"

text \<open>
  \<^verbatim>\<open>lerp_score(value, excellent, acceptable, poor, max_pts, invert=False)\<close>, lines 123-153.
  With \<^verbatim>\<open>invert\<close> the value and the three thresholds are negated first; then the chain of
  three comparisons follows, each linear branch computing its fraction by a division.
\<close>

definition lerp_score :: "real \<Rightarrow> real \<Rightarrow> real \<Rightarrow> real \<Rightarrow> real \<Rightarrow> bool \<Rightarrow> py_error + real" where
  "lerp_score val excellent acceptable poor max_pts invert =
     (let v = (if invert then - val else val);
          e = (if invert then - excellent else excellent);
          a = (if invert then - acceptable else acceptable);
          p = (if invert then - poor else poor)
      in if v \<ge> e then Inr max_pts
         else if v \<ge> a then
           (case py_div (v - a) (e - a) of
              Inl err \<Rightarrow> Inl err
            | Inr frac_v \<Rightarrow> Inr (max_pts * 0.5 + max_pts * 0.5 * frac_v))
         else if v \<ge> p then
           (case py_div (v - p) (a - p) of
              Inl err \<Rightarrow> Inl err
            | Inr frac_v \<Rightarrow> Inr (max_pts * 0.5 * frac_v))
         else Inr 0.0)"

text \<open>
  The orientation step in the words of the specification: for an inverted signal the value
  and all three thresholds are negated before the higher-is-better curve is applied.
\<close>

definition oriented :: "bool \<Rightarrow> real \<Rightarrow> real" where
  "oriented invert x = (if invert then - x else x)"

section \<open>Python values and library functions\<close>

text \<open>A Python number is an \<^verbatim>\<open>int\<close> or a \<^verbatim>\<open>float\<close>; \<open>num_val\<close> is its numeric value.\<close>

datatype pynum = PInt int | PFloat real

fun num_val :: "pynum \<Rightarrow> real" where
  "num_val (PInt n) = real_of_int n"
| "num_val (PFloat x) = x"

text \<open>A decoded JSON document (\<^verbatim>\<open>json.loads\<close>); an object is its list of key/value pairs.\<close>

datatype json =
    JNull
  | JBool bool
  | JInt int
  | JFloat real
  | JStr string
  | JArr "json list"
  | JObj "(string \<times> json) list"

text \<open>
  A float as the configuration loader meets it: TOML has the literals \<^verbatim>\<open>inf\<close>, \<^verbatim>\<open>-inf\<close> and
  \<^verbatim>\<open>nan\<close>, on which the conversions of the loader behave differently.
\<close>

datatype special_float = PosInf | NegInf | NaN

datatype pyfloat = Finite real | Special special_float

text \<open>
  A decoded TOML document (\<^verbatim>\<open>tomllib.load\<close>). \<open>TDate\<close> stands for the date and time
  values, which the loader never inspects.
\<close>

datatype toml =
    TInt int
  | TFloat pyfloat
  | TBool bool
  | TStr string
  | TDate string
  | TArray "toml list"
  | TTable "(string \<times> toml) list"

record pylib =
  lib_int_of_str :: "string \<Rightarrow> int option"
  lib_float_of_str :: "string \<Rightarrow> pyfloat option"
  lib_format_f :: "nat \<Rightarrow> real \<Rightarrow> string"
  lib_repr_float :: "real \<Rightarrow> string"
  lib_str_json :: "json \<Rightarrow> string"
  lib_upper :: "string \<Rightarrow> string"
  lib_round :: "real \<Rightarrow> nat \<Rightarrow> real"

text \<open>
  \<open>lib_int_of_str\<close> and \<open>lib_float_of_str\<close> are \<^verbatim>\<open>int(s)\<close> and \<^verbatim>\<open>float(s)\<close> on a string
  (\<open>None\<close> where Python raises \<^verbatim>\<open>ValueError\<close>); \<open>lib_format_f n x\<close> is \<^verbatim>\<open>format(x, ".nf")\<close>;
  \<open>lib_repr_float\<close> is \<^verbatim>\<open>str\<close> of a float; \<open>lib_str_json\<close> is \<^verbatim>\<open>str\<close> of a decoded JSON
  value that is neither a string nor an integer; \<open>lib_round x n\<close> is \<^verbatim>\<open>round(x, n)\<close>.
  \<open>sample_lib\<close> is one such library, used only to evaluate the functions on sample inputs.
\<close>

definition sample_lib :: pylib where
  "sample_lib =
     \<lparr> lib_int_of_str = (\<lambda>s. None), lib_float_of_str = (\<lambda>s. None),
       lib_format_f = (\<lambda>n x. ''0''), lib_repr_float = (\<lambda>x. ''0''),
       lib_str_json = (\<lambda>v. ''''), lib_upper = (\<lambda>s. s), lib_round = (\<lambda>x n. x) \<rparr>"

subsection \<open>Strings\<close>

definition newline :: char where
  "newline = CHR 0x0A"

definition em_dash :: string where
  "em_dash = [CHR 0xE2, CHR 0x80, CHR 0x94]"

definition check_mark :: string where
  "check_mark = [CHR 0xE2, CHR 0x9C, CHR 0x85]"

definition cross_mark :: string where
  "cross_mark = [CHR 0xE2, CHR 0x9D, CHR 0x8C]"

text \<open>\<^verbatim>\<open>s.startswith(p)\<close> and \<^verbatim>\<open>p in s\<close> on strings.\<close>

fun startswith :: "string \<Rightarrow> string \<Rightarrow> bool" where
  "startswith s [] = True"
| "startswith [] (p # ps) = False"
| "startswith (c # cs) (p # ps) = (c = p \<and> startswith cs ps)"

fun str_contains :: "string \<Rightarrow> string \<Rightarrow> bool" where
  "str_contains [] p = (p = [])"
| "str_contains (c # cs) p = (startswith (c # cs) p \<or> str_contains cs p)"

text \<open>\<^verbatim>\<open>str.isspace\<close> on the characters below 256, and \<^verbatim>\<open>s.strip()\<close>.\<close>

definition is_space :: "char \<Rightarrow> bool" where
  "is_space c =
     (let n = (of_char c :: nat)
      in (9 \<le> n \<and> n \<le> 13) \<or> (28 \<le> n \<and> n \<le> 32) \<or> n = 133 \<or> n = 160)"

definition strip :: "string \<Rightarrow> string" where
  "strip s = rev (dropWhile is_space (rev (dropWhile is_space s)))"

text \<open>\<^verbatim>\<open>sep.join(xs)\<close>.\<close>

fun join :: "string \<Rightarrow> string list \<Rightarrow> string" where
  "join sep [] = []"
| "join sep [x] = x"
| "join sep (x # y # ys) = x @ sep @ join sep (y # ys)"

text \<open>\<^verbatim>\<open>str(n)\<close> of an integer: its decimal digits, with a minus sign when negative.\<close>

fun str_nat :: "nat \<Rightarrow> string" where
  "str_nat n =
     (if n < 10 then [''0123456789'' ! n]
      else str_nat (n div 10) @ [''0123456789'' ! (n mod 10)])"

declare str_nat.simps [simp del]

definition str_int :: "int \<Rightarrow> string" where
  "str_int i = (if i < 0 then CHR ''-'' # str_nat (nat (- i)) else str_nat (nat i))"

definition str_num :: "pylib \<Rightarrow> pynum \<Rightarrow> string" where
  "str_num L x = (case x of PInt n \<Rightarrow> str_int n | PFloat r \<Rightarrow> lib_repr_float L r)"

section \<open>score.py: defaults and the configuration loader\<close>

definition DEFAULT_COMPLEXITY_EXCELLENT :: pynum where
  "DEFAULT_COMPLEXITY_EXCELLENT = PInt 5"

definition DEFAULT_COMPLEXITY_ACCEPTABLE :: pynum where
  "DEFAULT_COMPLEXITY_ACCEPTABLE = PInt 10"

definition DEFAULT_COMPLEXITY_POOR :: pynum where
  "DEFAULT_COMPLEXITY_POOR = PInt 20"

definition DEFAULT_COVERAGE_EXCELLENT :: pynum where
  "DEFAULT_COVERAGE_EXCELLENT = PInt 90"

definition DEFAULT_COVERAGE_ACCEPTABLE :: pynum where
  "DEFAULT_COVERAGE_ACCEPTABLE = PInt 70"

definition DEFAULT_COVERAGE_POOR :: pynum where
  "DEFAULT_COVERAGE_POOR = PInt 40"

definition DEFAULT_ANTIPATTERN_EXCELLENT :: pynum where
  "DEFAULT_ANTIPATTERN_EXCELLENT = PInt 0"

definition DEFAULT_ANTIPATTERN_ACCEPTABLE :: pynum where
  "DEFAULT_ANTIPATTERN_ACCEPTABLE = PInt 2"

definition DEFAULT_ANTIPATTERN_POOR :: pynum where
  "DEFAULT_ANTIPATTERN_POOR = PInt 5"

definition LOC_EXCLUDE_DIRS :: "string list" where
  "LOC_EXCLUDE_DIRS =
     [''tests'', ''test'', ''scripts'', ''fuzz'', ''.venv'', ''venv'', ''node_modules'',
      ''__pycache__'']"

subsection \<open>Operations on decoded TOML values\<close>

text \<open>
  \<^verbatim>\<open>obj.get(key, default)\<close>: only a table has the method. \<^verbatim>\<open>key in obj\<close>: key membership
  on a table, substring test on a string, element test on an array, \<^verbatim>\<open>TypeError\<close> on the
  scalars. \<^verbatim>\<open>obj[key]\<close> with a string key: a table's entry; on a string or an array the index
  must be an integer.
\<close>

fun toml_get :: "toml \<Rightarrow> string \<Rightarrow> toml \<Rightarrow> py_error + toml" where
  "toml_get (TTable kvs) key dflt = Inr (case map_of kvs key of Some v \<Rightarrow> v | None \<Rightarrow> dflt)"
| "toml_get other key dflt = Inl AttributeError"

fun toml_contains :: "string \<Rightarrow> toml \<Rightarrow> py_error + bool" where
  "toml_contains key (TTable kvs) = Inr (map_of kvs key \<noteq> None)"
| "toml_contains key (TStr s) = Inr (str_contains s key)"
| "toml_contains key (TArray xs) = Inr (TStr key \<in> set xs)"
| "toml_contains key other = Inl TypeError"

fun toml_index :: "toml \<Rightarrow> string \<Rightarrow> py_error + toml" where
  "toml_index (TTable kvs) key = (case map_of kvs key of Some v \<Rightarrow> Inr v | None \<Rightarrow> Inl KeyError)"
| "toml_index other key = Inl TypeError"

text \<open>
  \<^verbatim>\<open>int(v)\<close> truncates a finite float towards zero and raises \<^verbatim>\<open>OverflowError\<close> on an
  infinity and \<^verbatim>\<open>ValueError\<close> on NaN. \<^verbatim>\<open>float(v)\<close> keeps a float as it is and converts an
  integer whose absolute value is below \<open>2^1024 - 2^970\<close> (it rounds to a double); from there
  on it raises \<^verbatim>\<open>OverflowError\<close>.
\<close>

definition float_int_bound :: int where
  "float_int_bound = 2 ^ 1024 - 2 ^ 970"

fun py_int :: "pylib \<Rightarrow> toml \<Rightarrow> py_error + int" where
  "py_int L (TInt n) = Inr n"
| "py_int L (TFloat (Finite x)) = Inr (if x \<ge> 0 then \<lfloor>x\<rfloor> else \<lceil>x\<rceil>)"
| "py_int L (TFloat (Special NaN)) = Inl ValueError"
| "py_int L (TFloat (Special PosInf)) = Inl OverflowError"
| "py_int L (TFloat (Special NegInf)) = Inl OverflowError"
| "py_int L (TBool b) = Inr (if b then 1 else 0)"
| "py_int L (TStr s) = (case lib_int_of_str L s of Some n \<Rightarrow> Inr n | None \<Rightarrow> Inl ValueError)"
| "py_int L other = Inl TypeError"

fun py_float :: "pylib \<Rightarrow> toml \<Rightarrow> py_error + pyfloat" where
  "py_float L (TInt n) =
     (if \<bar>n\<bar> < float_int_bound then Inr (Finite (real_of_int n)) else Inl OverflowError)"
| "py_float L (TFloat x) = Inr x"
| "py_float L (TBool b) = Inr (Finite (if b then 1 else 0))"
| "py_float L (TStr s) = (case lib_float_of_str L s of Some x \<Rightarrow> Inr x | None \<Rightarrow> Inl ValueError)"
| "py_float L other = Inl TypeError"

subsection \<open>load_pyproject_config\<close>

text \<open>
  What the file system holds at a path, as \<^verbatim>\<open>load_pyproject_config\<close> observes it: a path on
  which \<^verbatim>\<open>exists()\<close> itself raises \<^verbatim>\<open>OSError\<close> (a name that is too long, a directory that may
  not be searched), no file (\<^verbatim>\<open>exists()\<close> is false), a path that exists but cannot be opened
  or read, a file that \<^verbatim>\<open>tomllib.load\<close> rejects, or a document.
\<close>

datatype toml_file = StatFails | NoFile | OpenFails | ParseFails | TomlDoc "(string \<times> toml) list"

text \<open>
  A value of the override dictionary: the threshold is an \<^verbatim>\<open>int\<close>, every other entry a
  \<^verbatim>\<open>float\<close>, which may be non-finite.
\<close>

datatype cfg_value = CInt int | CFloat pyfloat

text \<open>
  The inner loop of lines 94-96 over the keys of one section, and the outer loop of lines
  88-96 over the three sections; \<open>result\<close> is the dictionary built so far.
\<close>

fun read_keys ::
  "pylib \<Rightarrow> string \<Rightarrow> toml \<Rightarrow> string list \<Rightarrow> (string \<rightharpoonup> cfg_value) \<Rightarrow>
   py_error + (string \<rightharpoonup> cfg_value)" where
  "read_keys L prefix sub [] result = Inr result"
| "read_keys L prefix sub (key # keys) result =
     (case toml_contains key sub of
        Inl err \<Rightarrow> Inl err
      | Inr False \<Rightarrow> read_keys L prefix sub keys result
      | Inr True \<Rightarrow>
          (case toml_index sub key of
             Inl err \<Rightarrow> Inl err
           | Inr v \<Rightarrow>
               (case py_float L v of
                  Inl err \<Rightarrow> Inl err
                | Inr x \<Rightarrow>
                    read_keys L prefix sub keys (result(prefix @ ''_'' @ key \<mapsto> CFloat x)))))"

fun read_sections ::
  "pylib \<Rightarrow> toml \<Rightarrow> (string \<times> string) list \<Rightarrow> (string \<rightharpoonup> cfg_value) \<Rightarrow>
   py_error + (string \<rightharpoonup> cfg_value)" where
  "read_sections L gate [] result = Inr result"
| "read_sections L gate ((sect, prefix) # rest) result =
     (case toml_get gate sect (TTable []) of
        Inl err \<Rightarrow> Inl err
      | Inr sub \<Rightarrow>
          (case read_keys L prefix sub [''excellent'', ''acceptable'', ''poor''] result of
             Inl err \<Rightarrow> Inl err
           | Inr result' \<Rightarrow> read_sections L gate rest result'))"

text \<open>Lines 82-98: the overrides read from a parsed document.\<close>

definition gate_overrides ::
  "pylib \<Rightarrow> (string \<times> toml) list \<Rightarrow> py_error + (string \<rightharpoonup> cfg_value)" where
  "gate_overrides L data =
     (case toml_get (TTable data) ''tool'' (TTable []) of
        Inl err \<Rightarrow> Inl err
      | Inr tool \<Rightarrow>
          (case toml_get tool ''ai-gate'' (TTable []) of
             Inl err \<Rightarrow> Inl err
           | Inr gate \<Rightarrow>
               (case toml_contains ''threshold'' gate of
                  Inl err \<Rightarrow> Inl err
                | Inr has_threshold \<Rightarrow>
                    (case (if has_threshold
                           then (case toml_index gate ''threshold'' of
                                   Inl err \<Rightarrow> Inl err
                                 | Inr v \<Rightarrow>
                                     (case py_int L v of
                                        Inl err \<Rightarrow> Inl err
                                      | Inr n \<Rightarrow> Inr [''threshold'' \<mapsto> CInt n]))
                           else Inr Map.empty) of
                       Inl err \<Rightarrow> Inl err
                     | Inr result \<Rightarrow>
                         read_sections L gate
                           [(''complexity'', ''complexity''), (''coverage'', ''coverage''),
                            (''antipatterns'', ''antipattern'')] result))))"

text \<open>
  \<^verbatim>\<open>load_pyproject_config(config_path)\<close>, lines 56-98. \<open>fs\<close> is the file system and
  \<open>candidate\<close> the path \<^verbatim>\<open>str(Path.cwd() / "pyproject.toml")\<close>, or \<open>None\<close> when \<^verbatim>\<open>Path.cwd()\<close>
  raises because the working directory is gone. Only opening and parsing stand inside the
  \<^verbatim>\<open>try\<close>: the two calls of \<^verbatim>\<open>exists()\<close> (lines 65 and 70) and the lookups and conversions of
  lines 82-96 stand outside.
\<close>

definition load_pyproject_config ::
  "pylib \<Rightarrow> (string \<Rightarrow> toml_file) \<Rightarrow> string option \<Rightarrow> string option \<Rightarrow>
   py_error + (string \<rightharpoonup> cfg_value)" where
  "load_pyproject_config L fs candidate config_path =
     (case (case config_path of
              None \<Rightarrow>
                (case candidate of
                   None \<Rightarrow> Inl OSError
                 | Some c \<Rightarrow>
                     (case fs c of
                        StatFails \<Rightarrow> Inl OSError
                      | NoFile \<Rightarrow> Inr None
                      | _ \<Rightarrow> Inr (Some c)))
            | Some p \<Rightarrow> Inr (Some p)) of
        Inl err \<Rightarrow> Inl err
      | Inr None \<Rightarrow> Inr Map.empty
      | Inr (Some p) \<Rightarrow>
          (case fs p of
             StatFails \<Rightarrow> Inl OSError
           | NoFile \<Rightarrow> Inr Map.empty
           | OpenFails \<Rightarrow> Inr Map.empty
           | ParseFails \<Rightarrow> Inr Map.empty
           | TomlDoc data \<Rightarrow> gate_overrides L data))"

section \<open>score.py: the anti-pattern signal\<close>

subsection \<open>Operations on decoded JSON values\<close>

text \<open>
  \<^verbatim>\<open>obj.get(key, default)\<close> exists on objects only; \<^verbatim>\<open>len(obj)\<close> on arrays, strings and
  objects; \<^verbatim>\<open>obj[:10]\<close> on arrays and strings (a string yields its characters), while an
  object refuses a slice as key (\<^verbatim>\<open>TypeError\<close>; \<^verbatim>\<open>KeyError\<close> from Python 3.12 on).
\<close>

fun json_get :: "json \<Rightarrow> string \<Rightarrow> json \<Rightarrow> py_error + json" where
  "json_get (JObj kvs) key dflt = Inr (case map_of kvs key of Some v \<Rightarrow> v | None \<Rightarrow> dflt)"
| "json_get other key dflt = Inl AttributeError"

fun json_len :: "json \<Rightarrow> py_error + nat" where
  "json_len (JArr xs) = Inr (length xs)"
| "json_len (JStr s) = Inr (length s)"
| "json_len (JObj kvs) = Inr (length kvs)"
| "json_len other = Inl TypeError"

fun json_first10 :: "json \<Rightarrow> py_error + json list" where
  "json_first10 (JArr xs) = Inr (take 10 xs)"
| "json_first10 (JStr s) = Inr (map (\<lambda>c. JStr [c]) (take 10 s))"
| "json_first10 other = Inl TypeError"

text \<open>\<^verbatim>\<open>str(v)\<close> inside an f-string.\<close>

definition py_str :: "pylib \<Rightarrow> json \<Rightarrow> string" where
  "py_str L v = (case v of JStr s \<Rightarrow> s | JInt n \<Rightarrow> str_int n | _ \<Rightarrow> lib_str_json L v)"

subsection \<open>_count_loc\<close>

text \<open>
  One path found by \<^verbatim>\<open>root.rglob("*.py")\<close>: its parts relative to the root, and the lines
  \<^verbatim>\<open>read_text(errors="ignore").splitlines()\<close> gives, or \<open>None\<close> when reading raises
  \<^verbatim>\<open>OSError\<close>. Every such path lies under the root, so \<^verbatim>\<open>relative_to\<close> succeeds.
\<close>

record py_file =
  rel_parts :: "string list"
  content :: "string list option"

definition is_source_line :: "string \<Rightarrow> bool" where
  "is_source_line line = (let stripped = strip line in stripped \<noteq> [] \<and> \<not> startswith stripped ''#'')"

fun count_loc_loop :: "py_file list \<Rightarrow> nat \<Rightarrow> nat" where
  "count_loc_loop [] tot = tot"
| "count_loc_loop (p # ps) tot =
     (if rel_parts p \<noteq> [] \<and> hd (rel_parts p) \<in> set LOC_EXCLUDE_DIRS
      then count_loc_loop ps tot
      else (case content p of
              None \<Rightarrow> count_loc_loop ps tot
            | Some lines \<Rightarrow> count_loc_loop ps (tot + length (filter is_source_line lines))))"

definition count_loc :: "py_file list \<Rightarrow> nat" where
  "count_loc tree = max (count_loc_loop tree 0) 1"

subsection \<open>measure_antipatterns\<close>

text \<open>
  The findings file as \<^verbatim>\<open>measure_antipatterns\<close> observes it: absent, present but failing in
  \<^verbatim>\<open>read_text\<close> (the exception is not caught), rejected by \<^verbatim>\<open>json.loads\<close> with a message,
  or decoded.
\<close>

datatype json_file = JMissing | JReadFails py_error | JMalformed string | JDoc json

text \<open>Line 308: \<^verbatim>\<open>msg.replace("\n", " ")[:120]\<close>.\<close>

definition clip_message :: "string \<Rightarrow> string" where
  "clip_message msg = take 120 (map (\<lambda>c. if c = newline then CHR '' '' else c) msg)"

text \<open>Line 306: the message of a finding, falling back to its rule identifier.\<close>

definition finding_msg :: "json \<Rightarrow> py_error + json" where
  "finding_msg r =
     (case json_get r ''extra'' (JObj []) of
        Inl err \<Rightarrow> Inl err
      | Inr extra \<Rightarrow>
          (case json_get r ''check_id'' (JStr ''unknown'') of
             Inl err \<Rightarrow> Inl err
           | Inr dflt \<Rightarrow> json_get extra ''message'' dflt))"

text \<open>Lines 304-309: the warning of one finding.\<close>

definition finding_warning :: "pylib \<Rightarrow> json \<Rightarrow> py_error + string" where
  "finding_warning L r =
     (case json_get r ''path'' (JStr ''?'') of
        Inl err \<Rightarrow> Inl err
      | Inr path_str \<Rightarrow>
          (case json_get r ''start'' (JObj []) of
             Inl err \<Rightarrow> Inl err
           | Inr start \<Rightarrow>
               (case json_get start ''line'' (JStr ''?'') of
                  Inl err \<Rightarrow> Inl err
                | Inr line \<Rightarrow>
                    (case finding_msg r of
                       Inl err \<Rightarrow> Inl err
                     | Inr (JStr msg) \<Rightarrow>
                         Inr ([CHR 0x60] @ py_str L path_str @ '':'' @ py_str L line @ [CHR 0x60]
                              @ '' '' @ em_dash @ '' '' @ clip_message msg)
                     | Inr other \<Rightarrow> Inl AttributeError))))"

fun finding_warnings :: "pylib \<Rightarrow> json list \<Rightarrow> py_error + string list" where
  "finding_warnings L [] = Inr []"
| "finding_warnings L (r # rs) =
     (case finding_warning L r of
        Inl err \<Rightarrow> Inl err
      | Inr w \<Rightarrow>
          (case finding_warnings L rs of
             Inl err \<Rightarrow> Inl err
           | Inr ws \<Rightarrow> Inr (w # ws)))"

definition rollup_warning :: "nat \<Rightarrow> string" where
  "rollup_warning n = ''...and '' @ str_nat n @ '' more findings (see semgrep-results.json)''"

text \<open>
  \<^verbatim>\<open>measure_antipatterns(semgrep_json, src_path)\<close>, lines 280-314; \<open>file\<close> is what the findings
  path holds and \<open>tree\<close> what \<^verbatim>\<open>rglob\<close> finds under the source path.
\<close>

definition measure_antipatterns ::
  "pylib \<Rightarrow> json_file \<Rightarrow> py_file list \<Rightarrow> py_error + (real \<times> string \<times> string list)" where
  "measure_antipatterns L file tree =
     (case file of
        JMissing \<Rightarrow>
          Inr (0.0, ''semgrep-results.json not found '' @ em_dash @ '' semgrep not run'', [])
      | JReadFails err \<Rightarrow> Inl err
      | JMalformed e \<Rightarrow> Inr (0.0, ''Could not parse semgrep results: '' @ e, [])
      | JDoc data \<Rightarrow>
          (case json_get data ''results'' (JArr []) of
             Inl err \<Rightarrow> Inl err
           | Inr results \<Rightarrow>
               (case json_len results of
                  Inl err \<Rightarrow> Inl err
                | Inr finding_count \<Rightarrow>
                    (let loc = count_loc tree in
                     (case (if loc > 0
                            then (case py_div (real finding_count) (real loc) of
                                    Inl err \<Rightarrow> Inl err
                                  | Inr q \<Rightarrow> Inr (q * 100))
                            else Inr 0.0) of
                        Inl err \<Rightarrow> Inl err
                      | Inr density \<Rightarrow>
                          (let detail =
                                 ''**'' @ str_nat finding_count @ ''** anti-pattern findings (''
                                 @ lib_format_f L 2 density @ '' per 100 LOC, ~'' @ str_nat loc
                                 @ '' source lines)''
                           in (case json_first10 results of
                                 Inl err \<Rightarrow> Inl err
                               | Inr first \<Rightarrow>
                                   (case finding_warnings L first of
                                      Inl err \<Rightarrow> Inl err
                                    | Inr warnings \<Rightarrow>
                                        Inr (density, detail,
                                             if finding_count > 10
                                             then warnings @ [rollup_warning (finding_count - 10)]
                                             else warnings)))))))))"

section \<open>score.py: resolving thresholds, the report and the exit status\<close>

record score_breakdown =
  complexity_score :: real
  coverage_score :: real
  antipattern_score :: real
  complexity_detail :: string
  coverage_detail :: string
  antipattern_detail :: string
  warnings :: "string list"
  languages :: "string list"

definition total_score :: "score_breakdown \<Rightarrow> real" where
  "total_score b = complexity_score b + coverage_score b + antipattern_score b"

text \<open>The command-line options that carry thresholds, as \<^verbatim>\<open>argparse\<close> delivers them.\<close>

record cli_args =
  arg_threshold :: "int option"
  arg_fail_on_threshold :: bool
  arg_complexity_excellent :: "real option"
  arg_complexity_acceptable :: "real option"
  arg_complexity_poor :: "real option"
  arg_coverage_excellent :: "real option"
  arg_coverage_acceptable :: "real option"
  arg_coverage_poor :: "real option"
  arg_antipattern_excellent :: "real option"
  arg_antipattern_acceptable :: "real option"
  arg_antipattern_poor :: "real option"

text \<open>The local function \<^verbatim>\<open>resolve\<close> of \<^verbatim>\<open>main\<close> (lines 468-471), closed over \<open>cfg\<close>.\<close>

definition resolve :: "(string \<rightharpoonup> pynum) \<Rightarrow> real option \<Rightarrow> string \<Rightarrow> pynum \<Rightarrow> pynum" where
  "resolve cfg cli_val cfg_key dflt =
     (case cli_val of
        Some v \<Rightarrow> PFloat v
      | None \<Rightarrow> (case cfg cfg_key of Some c \<Rightarrow> c | None \<Rightarrow> dflt))"

text \<open>The ten locals that \<^verbatim>\<open>main\<close> computes in lines 473-490.\<close>

record threshold_set =
  gate_threshold :: pynum
  cx_exc :: pynum
  cx_acc :: pynum
  cx_poor :: pynum
  cov_exc :: pynum
  cov_acc :: pynum
  cov_poor :: pynum
  ap_exc :: pynum
  ap_acc :: pynum
  ap_poor :: pynum

definition resolve_thresholds :: "cli_args \<Rightarrow> (string \<rightharpoonup> pynum) \<Rightarrow> threshold_set" where
  "resolve_thresholds args cfg =
     \<lparr> gate_threshold =
         (case arg_threshold args of
            Some t \<Rightarrow> PInt t
          | None \<Rightarrow> (case cfg ''threshold'' of Some c \<Rightarrow> c | None \<Rightarrow> PInt 70)),
       cx_exc = resolve cfg (arg_complexity_excellent args) ''complexity_excellent''
                  DEFAULT_COMPLEXITY_EXCELLENT,
       cx_acc = resolve cfg (arg_complexity_acceptable args) ''complexity_acceptable''
                  DEFAULT_COMPLEXITY_ACCEPTABLE,
       cx_poor = resolve cfg (arg_complexity_poor args) ''complexity_poor''
                   DEFAULT_COMPLEXITY_POOR,
       cov_exc = resolve cfg (arg_coverage_excellent args) ''coverage_excellent''
                   DEFAULT_COVERAGE_EXCELLENT,
       cov_acc = resolve cfg (arg_coverage_acceptable args) ''coverage_acceptable''
                   DEFAULT_COVERAGE_ACCEPTABLE,
       cov_poor = resolve cfg (arg_coverage_poor args) ''coverage_poor''
                    DEFAULT_COVERAGE_POOR,
       ap_exc = resolve cfg (arg_antipattern_excellent args) ''antipattern_excellent''
                  DEFAULT_ANTIPATTERN_EXCELLENT,
       ap_acc = resolve cfg (arg_antipattern_acceptable args) ''antipattern_acceptable''
                  DEFAULT_ANTIPATTERN_ACCEPTABLE,
       ap_poor = resolve cfg (arg_antipattern_poor args) ''antipattern_poor''
                   DEFAULT_ANTIPATTERN_POOR \<rparr>"

text \<open>
  Lines 496-532: the three calls of \<open>lerp_score\<close> on the measured average complexity,
  coverage percentage and anti-pattern density, giving the three sub-scores.
\<close>

definition score_signals ::
  "threshold_set \<Rightarrow> real \<Rightarrow> real \<Rightarrow> real \<Rightarrow> py_error + (real \<times> real \<times> real)" where
  "score_signals th avg_cc pct density =
     (case lerp_score avg_cc (num_val (cx_exc th)) (num_val (cx_acc th)) (num_val (cx_poor th))
             40 True of
        Inl err \<Rightarrow> Inl err
      | Inr cx \<Rightarrow>
          (case lerp_score pct (num_val (cov_exc th)) (num_val (cov_acc th))
                  (num_val (cov_poor th)) 35 False of
             Inl err \<Rightarrow> Inl err
           | Inr cov \<Rightarrow>
               (case lerp_score density (num_val (ap_exc th)) (num_val (ap_acc th))
                       (num_val (ap_poor th)) 25 True of
                  Inl err \<Rightarrow> Inl err
                | Inr ap \<Rightarrow> Inr (cx, cov, ap))))"

text \<open>
  \<^verbatim>\<open>build_report(breakdown, threshold)\<close>, lines 376-410: \<open>report_lines\<close> is the list
  \<^verbatim>\<open>lines\<close>, joined by newlines in the end.
\<close>

definition report_lines :: "pylib \<Rightarrow> score_breakdown \<Rightarrow> pynum \<Rightarrow> string list" where
  "report_lines L breakdown threshold =
     (let tot = total_score breakdown;
          passed = (tot \<ge> num_val threshold);
          status_icon = (if passed then check_mark else cross_mark);
          status_word = (if passed then ''PASSED'' else ''BLOCKED'');
          lang_str = (if languages breakdown \<noteq> []
                      then lib_upper L (join '', '' (languages breakdown)) else ''Python'')
      in [''## '' @ status_icon @ '' AI Code Quality Gate '' @ em_dash @ '' '' @ status_word,
          '''',
          ''**Languages analysed:** '' @ lang_str,
          '''',
          ''| Signal | Score | Detail |'',
          ''|--------|------:|--------|'',
          ''| Complexity (40 pts) | '' @ lib_format_f L 1 (complexity_score breakdown) @ '' | ''
            @ complexity_detail breakdown @ '' |'',
          ''| Coverage (35 pts)   | '' @ lib_format_f L 1 (coverage_score breakdown) @ '' | ''
            @ coverage_detail breakdown @ '' |'',
          ''| Anti-patterns (25 pts) | '' @ lib_format_f L 1 (antipattern_score breakdown)
            @ '' | '' @ antipattern_detail breakdown @ '' |'',
          ''| **Total** | **'' @ lib_format_f L 1 tot @ '' / 100** | Threshold: ''
            @ str_num L threshold @ '' |'',
          '''']
         @ (if warnings breakdown \<noteq> []
            then [''### Findings'', ''''] @ map (\<lambda>w. ''- '' @ w) (warnings breakdown) @ ['''']
            else [])
         @ (if \<not> passed
            then [''> **Merge blocked.** Resolve the findings above and re-push to re-run the gate.'',
                  '''']
            else []))"

definition build_report :: "pylib \<Rightarrow> score_breakdown \<Rightarrow> pynum \<Rightarrow> string" where
  "build_report L breakdown threshold = join [newline] (report_lines L breakdown threshold)"

text \<open>
  The exit status of \<^verbatim>\<open>main\<close> once the breakdown is computed and the outputs are written
  (lines 551-552): \<^verbatim>\<open>sys.exit(1)\<close> or the normal end of the process.
\<close>

definition exit_status :: "bool \<Rightarrow> score_breakdown \<Rightarrow> pynum \<Rightarrow> int" where
  "exit_status fail_on_threshold breakdown threshold =
     (if fail_on_threshold \<and> total_score breakdown < num_val threshold then 1 else 0)"

section \<open>score_store.py: the history store\<close>

text \<open>
  One row of the table \<^verbatim>\<open>score_runs\<close>. The column \<^verbatim>\<open>id\<close> is \<open>row_id\<close> here, and the three
  sub-score columns carry the prefix \<open>run_\<close>. The store is the list of its rows in insertion
  order; every function opens the same database file, so the store is passed in and, by
  \<open>record_run\<close>, returned. Rows are only ever appended.
\<close>

record score_run =
  row_id :: int
  recorded_at :: string
  repo :: string
  branch :: string
  pr :: "int option"
  sha :: string
  score :: real
  passed :: int
  threshold :: real
  run_complexity_score :: "real option"
  run_coverage_score :: "real option"
  run_antipattern_score :: "real option"

datatype sqlval = SNull | SInt int | SReal real | SText string

text \<open>
  \<^verbatim>\<open>INTEGER PRIMARY KEY AUTOINCREMENT\<close>: the new row gets one more than the largest row id the
  table has ever held, which in an append-only table is the largest one present.
\<close>

definition next_row_id :: "score_run list \<Rightarrow> int" where
  "next_row_id db = foldr max (map row_id db) 0 + 1"

text \<open>
  \<^verbatim>\<open>record_run\<close>, lines 65-108; \<open>now\<close> is the text \<^verbatim>\<open>datetime.now(UTC).isoformat()\<close> read from
  the clock. The result is the store after the insert and the new row id.
\<close>

definition record_run ::
  "score_run list \<Rightarrow> string \<Rightarrow> real \<Rightarrow> string \<Rightarrow> string \<Rightarrow> int option \<Rightarrow> string \<Rightarrow> real \<Rightarrow>
   real option \<Rightarrow> real option \<Rightarrow> real option \<Rightarrow> score_run list \<times> int" where
  "record_run db now the_score the_repo the_branch the_pr the_sha the_threshold
     cx_score cov_score ap_score =
     (let new_id = next_row_id db;
          row = \<lparr> row_id = new_id, recorded_at = now, repo = the_repo, branch = the_branch,
                  pr = the_pr, sha = the_sha, score = the_score,
                  passed = (if the_score \<ge> the_threshold then 1 else 0),
                  threshold = the_threshold, run_complexity_score = cx_score,
                  run_coverage_score = cov_score, run_antipattern_score = ap_score \<rparr>
      in (db @ [row], new_id))"

text \<open>
  \<^verbatim>\<open>ORDER BY recorded_at DESC\<close> compares the timestamps as text, byte by byte. Rows with
  equal timestamps come in descending row id, as a backward scan of the index on
  (repo, recorded_at) yields them; SQL itself leaves their order open.
  \<^verbatim>\<open>LIMIT n\<close> with a negative \<open>n\<close> is no limit.
\<close>

definition order_by_recorded_at_desc :: "score_run list \<Rightarrow> score_run list" where
  "order_by_recorded_at_desc rows = rev (sort_key recorded_at rows)"

definition sql_limit :: "int \<Rightarrow> 'a list \<Rightarrow> 'a list" where
  "sql_limit n xs = (if n < 0 then xs else take (nat n) xs)"

definition opt_int :: "int option \<Rightarrow> sqlval" where
  "opt_int v = (case v of None \<Rightarrow> SNull | Some i \<Rightarrow> SInt i)"

definition opt_real :: "real option \<Rightarrow> sqlval" where
  "opt_real v = (case v of None \<Rightarrow> SNull | Some x \<Rightarrow> SReal x)"

text \<open>\<^verbatim>\<open>dict(row)\<close> for the seven columns of the trend query and for \<^verbatim>\<open>SELECT *\<close>.\<close>

definition trend_dict :: "score_run \<Rightarrow> (string \<times> sqlval) list" where
  "trend_dict r =
     [(''recorded_at'', SText (recorded_at r)), (''branch'', SText (branch r)),
      (''pr'', opt_int (pr r)), (''sha'', SText (sha r)), (''score'', SReal (score r)),
      (''passed'', SInt (passed r)), (''threshold'', SReal (threshold r))]"

definition run_dict :: "score_run \<Rightarrow> (string \<times> sqlval) list" where
  "run_dict r =
     [(''id'', SInt (row_id r)), (''recorded_at'', SText (recorded_at r)),
      (''repo'', SText (repo r)), (''branch'', SText (branch r)), (''pr'', opt_int (pr r)),
      (''sha'', SText (sha r)), (''score'', SReal (score r)), (''passed'', SInt (passed r)),
      (''threshold'', SReal (threshold r)),
      (''complexity_score'', opt_real (run_complexity_score r)),
      (''coverage_score'', opt_real (run_coverage_score r)),
      (''antipattern_score'', opt_real (run_antipattern_score r))]"

text \<open>\<^verbatim>\<open>query_trend(db_path, repo, limit)\<close>, lines 114-128.\<close>

definition query_trend :: "score_run list \<Rightarrow> string \<Rightarrow> int \<Rightarrow> (string \<times> sqlval) list list" where
  "query_trend db the_repo limit =
     (let rows = sql_limit limit
                   (order_by_recorded_at_desc (filter (\<lambda>r. repo r = the_repo) db))
      in map trend_dict (rev rows))"

text \<open>
  \<^verbatim>\<open>query_latest(db_path, repo, branch=None)\<close>, lines 131-155; \<^verbatim>\<open>if branch:\<close> is false for
  \<^verbatim>\<open>None\<close> and for the empty string.
\<close>

definition query_latest ::
  "score_run list \<Rightarrow> string \<Rightarrow> string option \<Rightarrow> (string \<times> sqlval) list option" where
  "query_latest db the_repo the_branch =
     (let selected =
            (case the_branch of
               Some b \<Rightarrow>
                 (if b \<noteq> [] then filter (\<lambda>r. repo r = the_repo \<and> branch r = b) db
                  else filter (\<lambda>r. repo r = the_repo) db)
             | None \<Rightarrow> filter (\<lambda>r. repo r = the_repo) db)
      in (case sql_limit 1 (order_by_recorded_at_desc selected) of
            [] \<Rightarrow> None
          | row # _ \<Rightarrow> Some (run_dict row)))"

text \<open>
  \<^verbatim>\<open>query_stats(db_path, repo)\<close>, lines 158-180. The aggregate query always yields a row;
  over no rows its count is 0, and the function returns the empty dictionary before any
  division.
\<close>

definition query_stats :: "pylib \<Rightarrow> score_run list \<Rightarrow> string \<Rightarrow> (string \<times> sqlval) list" where
  "query_stats L db the_repo =
     (let rows = filter (\<lambda>r. repo r = the_repo) db;
          total_runs = int (length rows)
      in if total_runs = 0 then []
         else
           (let passed_runs = sum_list (map passed rows)
            in [(''total_runs'', SInt total_runs),
                (''avg_score'', SReal (sum_list (map score rows) / real_of_int total_runs)),
                (''best_score'', SReal (Max (set (map score rows)))),
                (''worst_score'', SReal (Min (set (map score rows)))),
                (''passed_runs'', SInt passed_runs),
                (''blocked_runs'', SInt (total_runs - passed_runs)),
                (''pass_rate'',
                   SReal (lib_round L (real_of_int passed_runs / real_of_int total_runs * 100) 1))]))"

section \<open>Sample inputs\<close>

text \<open>An invocation without any threshold flag, and a breakdown with a given coverage score.\<close>

definition no_flags :: cli_args where
  "no_flags =
     \<lparr> arg_threshold = None, arg_fail_on_threshold = False,
       arg_complexity_excellent = None, arg_complexity_acceptable = None,
       arg_complexity_poor = None, arg_coverage_excellent = None,
       arg_coverage_acceptable = None, arg_coverage_poor = None,
       arg_antipattern_excellent = None, arg_antipattern_acceptable = None,
       arg_antipattern_poor = None \<rparr>"

definition sample_breakdown :: "real \<Rightarrow> score_breakdown" where
  "sample_breakdown cov =
     \<lparr> complexity_score = 40, coverage_score = cov, antipattern_score = 25,
       complexity_detail = '''', coverage_detail = '''', antipattern_detail = '''',
       warnings = [], languages = [''python''] \<rparr>"

section \<open>Notions used to state the properties of the loader\<close>

text \<open>
  What \<^verbatim>\<open>load_pyproject_config\<close> finds at the place it looks: the given path, or the candidate
  in the working directory when no path is given (a working directory that cannot be
  determined counts as a failing \<^verbatim>\<open>exists()\<close>).
\<close>

definition config_file ::
  "(string \<Rightarrow> toml_file) \<Rightarrow> string option \<Rightarrow> string option \<Rightarrow> toml_file" where
  "config_file fs candidate config_path =
     (case config_path of
        Some p \<Rightarrow> fs p
      | None \<Rightarrow> (case candidate of None \<Rightarrow> StatFails | Some c \<Rightarrow> fs c))"

text \<open>
  A threshold is plain when it is an integer, a finite float or a boolean. A bound of a
  subsection is plain when it is an integer of absolute value below \<open>float_int_bound\<close>, a
  float or a boolean. A gate section is well typed when its threshold, if present, is plain,
  and each of its three subsections, if present, is a table whose entries \<^verbatim>\<open>excellent\<close>,
  \<^verbatim>\<open>acceptable\<close> and \<^verbatim>\<open>poor\<close>, if present, are plain.
\<close>

fun plain_threshold :: "toml \<Rightarrow> bool" where
  "plain_threshold (TInt n) = True"
| "plain_threshold (TFloat (Finite x)) = True"
| "plain_threshold (TBool b) = True"
| "plain_threshold other = False"

fun plain_bound :: "toml \<Rightarrow> bool" where
  "plain_bound (TInt n) = (\<bar>n\<bar> < float_int_bound)"
| "plain_bound (TFloat x) = True"
| "plain_bound (TBool b) = True"
| "plain_bound other = False"

definition entry_ok :: "(toml \<Rightarrow> bool) \<Rightarrow> (string \<times> toml) list \<Rightarrow> string \<Rightarrow> bool" where
  "entry_ok plain kvs key = (case map_of kvs key of None \<Rightarrow> True | Some v \<Rightarrow> plain v)"

definition section_ok :: "(string \<times> toml) list \<Rightarrow> string \<Rightarrow> bool" where
  "section_ok gate sect =
     (case map_of gate sect of
        None \<Rightarrow> True
      | Some (TTable kvs) \<Rightarrow>
          entry_ok plain_bound kvs ''excellent'' \<and> entry_ok plain_bound kvs ''acceptable'' \<and>
          entry_ok plain_bound kvs ''poor''
      | Some other \<Rightarrow> False)"

definition gate_well_typed :: "(string \<times> toml) list \<Rightarrow> bool" where
  "gate_well_typed gate =
     (entry_ok plain_threshold gate ''threshold'' \<and> section_ok gate ''complexity'' \<and>
      section_ok gate ''coverage'' \<and> section_ok gate ''antipatterns'')"

text \<open>
  Sample documents: \<^verbatim>\<open>[tool.ai-gate]\<close> with \<^verbatim>\<open>complexity = 10\<close> in place of a subsection; the
  partial section of the test suite (a threshold of 65 and \<^verbatim>\<open>coverage.excellent = 92\<close>); and
  a gate section with the given threshold and the given \<^verbatim>\<open>coverage.excellent\<close>.
\<close>

definition ill_typed_doc :: "(string \<times> toml) list" where
  "ill_typed_doc = [(''tool'', TTable [(''ai-gate'', TTable [(''complexity'', TInt 10)])])]"

definition gate_doc :: "toml \<Rightarrow> toml \<Rightarrow> (string \<times> toml) list" where
  "gate_doc t e =
     [(''tool'', TTable [(''ai-gate'',
         TTable [(''threshold'', t), (''coverage'', TTable [(''excellent'', e)])])])]"

definition partial_doc :: "(string \<times> toml) list" where
  "partial_doc = gate_doc (TInt 65) (TInt 92)"

section \<open>Sample findings and source tree\<close>

text \<open>
  A findings file with \<open>n\<close> copies of one finding, and a source tree with one module of 100
  source lines beside a test directory, a file of comments and blanks, and an unreadable
  file.
\<close>

definition sample_finding :: json where
  "sample_finding =
     JObj [(''path'', JStr ''src/main.py''), (''start'', JObj [(''line'', JInt 1)]),
           (''extra'', JObj [(''message'', JStr ''bad pattern'')]),
           (''check_id'', JStr ''test-rule'')]"

definition findings_doc :: "nat \<Rightarrow> json" where
  "findings_doc n = JObj [(''results'', JArr (replicate n sample_finding)), (''errors'', JArr [])]"

definition sample_tree :: "py_file list" where
  "sample_tree =
     [\<lparr> rel_parts = [''src'', ''main.py''], content = Some (replicate 100 ''x = 1'') \<rparr>,
      \<lparr> rel_parts = [''tests'', ''test_main.py''], content = Some (replicate 50 ''assert True'') \<rparr>,
      \<lparr> rel_parts = [''notes.py''], content = Some [''# a comment'', ''   '', ''''] \<rparr>,
      \<lparr> rel_parts = [''locked.py''], content = None \<rparr>]"

section \<open>Notions used to state the properties of the store\<close>

text \<open>
  The stored runs of a repository, oldest first; the last \<open>n\<close> elements of a list; a run
  recorded with the default arguments; the store after three runs with the scores 60, 70
  and 80 recorded at the clock readings \<open>t1\<close>, \<open>t2\<close>, \<open>t3\<close>; and a store with three runs of
  one repository.
\<close>

definition repo_runs_by_time :: "score_run list \<Rightarrow> string \<Rightarrow> score_run list" where
  "repo_runs_by_time db the_repo = sort_key recorded_at (filter (\<lambda>r. repo r = the_repo) db)"

definition last_n :: "nat \<Rightarrow> 'a list \<Rightarrow> 'a list" where
  "last_n n xs = drop (length xs - n) xs"

definition record_score :: "score_run list \<Rightarrow> string \<Rightarrow> real \<Rightarrow> string \<Rightarrow> score_run list" where
  "record_score db now the_score the_repo =
     fst (record_run db now the_score the_repo '''' None '''' 70 None None None)"

definition three_runs :: "score_run list \<Rightarrow> string \<Rightarrow> string \<Rightarrow> string \<Rightarrow> score_run list" where
  "three_runs db t1 t2 t3 =
     record_score (record_score (record_score db t1 60 ''org/repo'') t2 70 ''org/repo'')
       t3 80 ''org/repo''"

definition sample_store :: "score_run list" where
  "sample_store =
     record_score (record_score (record_score [] ''2026-01-05T10:00:00+00:00'' 60 ''org/repo'')
        ''2026-01-05T11:00:00+00:00'' 80 ''org/repo'') ''2026-01-06T09:30:00+00:00'' 90 ''org/repo''"

section \<open>Properties of the interpolation\<close>

lemma lerp_score_branches:
  "lerp_score val excellent acceptable poor max_pts invert =
     (let v = oriented invert val; e = oriented invert excellent;
          a = oriented invert acceptable; p = oriented invert poor
      in if v \<ge> e then Inr max_pts
         else if v \<ge> a then Inr (max_pts * 0.5 + max_pts * 0.5 * ((v - a) / (e - a)))
         else if v \<ge> p then Inr (max_pts * 0.5 * ((v - p) / (a - p)))
         else Inr 0)"
  by (simp add: lerp_score_def oriented_def py_div_def Let_def)

text \<open>
  C1. Whenever the oriented thresholds are ordered excellent > acceptable > poor,
  \<open>lerp_score\<close> is the piecewise-linear curve of the specification: full credit from
  excellent on, the upper linear half on [acceptable, excellent), the lower linear half on
  [poor, acceptable), and zero below poor, where an inverted signal has its value and
  thresholds negated first. The six sample points of the specification evaluate to 35,
  17.5, 0 (coverage) and 40, 20, 0 (complexity, inverted).
\<close>

theorem lerp_score_piecewise:
  "(\<forall>val excellent acceptable poor max_pts invert.
      oriented invert excellent > oriented invert acceptable \<and>
      oriented invert acceptable > oriented invert poor \<longrightarrow>
      (oriented invert val \<ge> oriented invert excellent \<longrightarrow>
         lerp_score val excellent acceptable poor max_pts invert = Inr max_pts) \<and>
      (oriented invert acceptable \<le> oriented invert val \<and>
       oriented invert val < oriented invert excellent \<longrightarrow>
         lerp_score val excellent acceptable poor max_pts invert =
           Inr (max_pts * 0.5 + max_pts * 0.5 * (oriented invert val - oriented invert acceptable)
                  / (oriented invert excellent - oriented invert acceptable))) \<and>
      (oriented invert poor \<le> oriented invert val \<and>
       oriented invert val < oriented invert acceptable \<longrightarrow>
         lerp_score val excellent acceptable poor max_pts invert =
           Inr (max_pts * 0.5 * (oriented invert val - oriented invert poor)
                  / (oriented invert acceptable - oriented invert poor))) \<and>
      (oriented invert val < oriented invert poor \<longrightarrow>
         lerp_score val excellent acceptable poor max_pts invert = Inr 0)) \<and>
   lerp_score 90 90 70 40 35 False = Inr 35 \<and>
   lerp_score 70 90 70 40 35 False = Inr 17.5 \<and>
   lerp_score 40 90 70 40 35 False = Inr 0 \<and>
   lerp_score 5 5 10 20 40 True = Inr 40 \<and>
   lerp_score 10 5 10 20 40 True = Inr 20 \<and>
   lerp_score 20 5 10 20 40 True = Inr 0"
proof -
  have general: "\<forall>val excellent acceptable poor max_pts invert.
      oriented invert excellent > oriented invert acceptable \<and>
      oriented invert acceptable > oriented invert poor \<longrightarrow>
      (oriented invert val \<ge> oriented invert excellent \<longrightarrow>
         lerp_score val excellent acceptable poor max_pts invert = Inr max_pts) \<and>
      (oriented invert acceptable \<le> oriented invert val \<and>
       oriented invert val < oriented invert excellent \<longrightarrow>
         lerp_score val excellent acceptable poor max_pts invert =
           Inr (max_pts * 0.5 + max_pts * 0.5 * (oriented invert val - oriented invert acceptable)
                  / (oriented invert excellent - oriented invert acceptable))) \<and>
      (oriented invert poor \<le> oriented invert val \<and>
       oriented invert val < oriented invert acceptable \<longrightarrow>
         lerp_score val excellent acceptable poor max_pts invert =
           Inr (max_pts * 0.5 * (oriented invert val - oriented invert poor)
                  / (oriented invert acceptable - oriented invert poor))) \<and>
      (oriented invert val < oriented invert poor \<longrightarrow>
         lerp_score val excellent acceptable poor max_pts invert = Inr 0)"
    by (simp add: lerp_score_branches Let_def)
  have samples:
    "lerp_score 90 90 70 40 35 False = Inr 35"
    "lerp_score 70 90 70 40 35 False = Inr 17.5"
    "lerp_score 40 90 70 40 35 False = Inr 0"
    "lerp_score 5 5 10 20 40 True = Inr 40"
    "lerp_score 10 5 10 20 40 True = Inr 20"
    "lerp_score 20 5 10 20 40 True = Inr 0"
    by (simp_all add: lerp_score_branches oriented_def)
  from general samples show ?thesis by blast
qed

theorem lerp_score_piecewise_witness:
  "lerp_score 80 90 70 40 35 False = Inr 26.25 \<and>
   lerp_score 15 5 10 20 40 True = Inr 10"
proof -
  have up: "lerp_score 80 90 70 40 35 False =
      Inr (35 * 0.5 + 35 * 0.5 * (oriented False 80 - oriented False 70)
             / (oriented False 90 - oriented False 70))"
    using lerp_score_piecewise by (simp add: oriented_def)
  have low: "lerp_score 15 5 10 20 40 True =
      Inr (40 * 0.5 * (oriented True 15 - oriented True 20)
             / (oriented True 10 - oriented True 20))"
    using lerp_score_piecewise by (simp add: oriented_def)
  from up low show ?thesis by (simp add: oriented_def)
qed

text \<open>
  C10. \<open>lerp_score\<close> returns a number for every input and never raises
  \<^verbatim>\<open>ZeroDivisionError\<close>: a linear branch is entered only when its interval is non-empty,
  hence of non-zero width. With excellent = acceptable the upper linear branch is never
  taken and the score steps to \<open>max_pts\<close> at the shared boundary; with acceptable = poor the
  lower linear branch is never taken and a value at the shared boundary gets the upper
  branch's result. The same holds for inverted signals.
\<close>

theorem lerp_score_total:
  "(\<exists>y. lerp_score val excellent acceptable poor max_pts invert = Inr y) \<and>
   lerp_score val c c poor max_pts False =
     Inr (if val \<ge> c then max_pts
          else if val \<ge> poor then max_pts * 0.5 * ((val - poor) / (c - poor)) else 0) \<and>
   lerp_score val excellent c c max_pts False =
     Inr (if val \<ge> excellent then max_pts
          else if val \<ge> c then max_pts * 0.5 + max_pts * 0.5 * ((val - c) / (excellent - c))
          else 0) \<and>
   lerp_score val c c poor max_pts True =
     Inr (if val \<le> c then max_pts
          else if val \<le> poor then max_pts * 0.5 * ((poor - val) / (poor - c)) else 0) \<and>
   lerp_score val excellent c c max_pts True =
     Inr (if val \<le> excellent then max_pts
          else if val \<le> c then max_pts * 0.5 + max_pts * 0.5 * ((c - val) / (c - excellent))
          else 0) \<and>
   lerp_score c c c poor max_pts invert = Inr max_pts"
proof -
  have total: "\<exists>y. lerp_score val excellent acceptable poor max_pts invert = Inr y"
    by (simp add: lerp_score_branches Let_def)
  have eq_upper: "lerp_score val c c poor max_pts False =
     Inr (if val \<ge> c then max_pts
          else if val \<ge> poor then max_pts * 0.5 * ((val - poor) / (c - poor)) else 0)"
    by (simp add: lerp_score_branches oriented_def)
  have eq_lower: "lerp_score val excellent c c max_pts False =
     Inr (if val \<ge> excellent then max_pts
          else if val \<ge> c then max_pts * 0.5 + max_pts * 0.5 * ((val - c) / (excellent - c))
          else 0)"
    by (simp add: lerp_score_branches oriented_def)
  have eq_upper_inv: "lerp_score val c c poor max_pts True =
     Inr (if val \<le> c then max_pts
          else if val \<le> poor then max_pts * 0.5 * ((poor - val) / (poor - c)) else 0)"
    by (simp add: lerp_score_branches oriented_def)
  have eq_lower_inv: "lerp_score val excellent c c max_pts True =
     Inr (if val \<le> excellent then max_pts
          else if val \<le> c then max_pts * 0.5 + max_pts * 0.5 * ((c - val) / (c - excellent))
          else 0)"
    by (simp add: lerp_score_branches oriented_def)
  have step: "lerp_score c c c poor max_pts invert = Inr max_pts"
    by (simp add: lerp_score_branches oriented_def)
  from total eq_upper eq_lower eq_upper_inv eq_lower_inv step show ?thesis by blast
qed

section \<open>Thresholds, the gate decision and the exit status\<close>

lemmas default_defs =
  DEFAULT_COMPLEXITY_EXCELLENT_def DEFAULT_COMPLEXITY_ACCEPTABLE_def DEFAULT_COMPLEXITY_POOR_def
  DEFAULT_COVERAGE_EXCELLENT_def DEFAULT_COVERAGE_ACCEPTABLE_def DEFAULT_COVERAGE_POOR_def
  DEFAULT_ANTIPATTERN_EXCELLENT_def DEFAULT_ANTIPATTERN_ACCEPTABLE_def
  DEFAULT_ANTIPATTERN_POOR_def

lemma resolve_order:
  "resolve cfg cli key dflt =
     (case cli of Some v \<Rightarrow> PFloat v
      | None \<Rightarrow> (case cfg key of Some c \<Rightarrow> c | None \<Rightarrow> dflt))"
  by (simp add: resolve_def)

lemma score_signals_iff:
  "(score_signals th avg_cc pct density = Inr (cx, cov, ap)) =
     (lerp_score avg_cc (num_val (cx_exc th)) (num_val (cx_acc th)) (num_val (cx_poor th)) 40 True
        = Inr cx \<and>
      lerp_score pct (num_val (cov_exc th)) (num_val (cov_acc th)) (num_val (cov_poor th)) 35 False
        = Inr cov \<and>
      lerp_score density (num_val (ap_exc th)) (num_val (ap_acc th)) (num_val (ap_poor th)) 25 True
        = Inr ap)"
  by (auto simp add: score_signals_def split: sum.splits)

lemma default_scores:
  "score_signals (resolve_thresholds no_flags Map.empty) 5 90 0 = Inr (40, 35, 25)"
  "score_signals (resolve_thresholds no_flags Map.empty) 10 70 2 = Inr (20, 17.5, 12.5)"
  "score_signals (resolve_thresholds no_flags Map.empty) 20 40 5 = Inr (0, 0, 0)"
  by (simp_all add: score_signals_def resolve_thresholds_def resolve_def no_flags_def
        lerp_score_branches oriented_def default_defs)

text \<open>
  C4. Each of the ten scalars that \<^verbatim>\<open>main\<close> resolves is the command-line value when one is
  given, otherwise the value of the configuration file when it has the key, otherwise the
  built-in default: 70 for the pass/fail threshold, 5/10/20 for complexity, 90/70/40 for
  coverage and 0/2/5 for anti-pattern density. Complexity and density are scored
  lower-is-better (\<open>invert\<close> set), coverage higher-is-better; with the defaults the best
  values score 40, 35 and 25, the acceptable ones half of that, the poor ones 0.
\<close>

theorem threshold_resolution:
  "gate_threshold (resolve_thresholds a cfg) =
     (case arg_threshold a of Some t \<Rightarrow> PInt t
      | None \<Rightarrow> (case cfg ''threshold'' of Some c \<Rightarrow> c | None \<Rightarrow> PInt 70)) \<and>
   cx_exc (resolve_thresholds a cfg) =
     (case arg_complexity_excellent a of Some v \<Rightarrow> PFloat v
      | None \<Rightarrow> (case cfg ''complexity_excellent'' of Some c \<Rightarrow> c | None \<Rightarrow> PInt 5)) \<and>
   cx_acc (resolve_thresholds a cfg) =
     (case arg_complexity_acceptable a of Some v \<Rightarrow> PFloat v
      | None \<Rightarrow> (case cfg ''complexity_acceptable'' of Some c \<Rightarrow> c | None \<Rightarrow> PInt 10)) \<and>
   cx_poor (resolve_thresholds a cfg) =
     (case arg_complexity_poor a of Some v \<Rightarrow> PFloat v
      | None \<Rightarrow> (case cfg ''complexity_poor'' of Some c \<Rightarrow> c | None \<Rightarrow> PInt 20)) \<and>
   cov_exc (resolve_thresholds a cfg) =
     (case arg_coverage_excellent a of Some v \<Rightarrow> PFloat v
      | None \<Rightarrow> (case cfg ''coverage_excellent'' of Some c \<Rightarrow> c | None \<Rightarrow> PInt 90)) \<and>
   cov_acc (resolve_thresholds a cfg) =
     (case arg_coverage_acceptable a of Some v \<Rightarrow> PFloat v
      | None \<Rightarrow> (case cfg ''coverage_acceptable'' of Some c \<Rightarrow> c | None \<Rightarrow> PInt 70)) \<and>
   cov_poor (resolve_thresholds a cfg) =
     (case arg_coverage_poor a of Some v \<Rightarrow> PFloat v
      | None \<Rightarrow> (case cfg ''coverage_poor'' of Some c \<Rightarrow> c | None \<Rightarrow> PInt 40)) \<and>
   ap_exc (resolve_thresholds a cfg) =
     (case arg_antipattern_excellent a of Some v \<Rightarrow> PFloat v
      | None \<Rightarrow> (case cfg ''antipattern_excellent'' of Some c \<Rightarrow> c | None \<Rightarrow> PInt 0)) \<and>
   ap_acc (resolve_thresholds a cfg) =
     (case arg_antipattern_acceptable a of Some v \<Rightarrow> PFloat v
      | None \<Rightarrow> (case cfg ''antipattern_acceptable'' of Some c \<Rightarrow> c | None \<Rightarrow> PInt 2)) \<and>
   ap_poor (resolve_thresholds a cfg) =
     (case arg_antipattern_poor a of Some v \<Rightarrow> PFloat v
      | None \<Rightarrow> (case cfg ''antipattern_poor'' of Some c \<Rightarrow> c | None \<Rightarrow> PInt 5)) \<and>
   (score_signals th avg_cc pct density = Inr (cx, cov, ap)) =
     (lerp_score avg_cc (num_val (cx_exc th)) (num_val (cx_acc th)) (num_val (cx_poor th)) 40 True
        = Inr cx \<and>
      lerp_score pct (num_val (cov_exc th)) (num_val (cov_acc th)) (num_val (cov_poor th)) 35 False
        = Inr cov \<and>
      lerp_score density (num_val (ap_exc th)) (num_val (ap_acc th)) (num_val (ap_poor th)) 25 True
        = Inr ap) \<and>
   score_signals (resolve_thresholds no_flags Map.empty) 5 90 0 = Inr (40, 35, 25) \<and>
   score_signals (resolve_thresholds no_flags Map.empty) 10 70 2 = Inr (20, 17.5, 12.5) \<and>
   score_signals (resolve_thresholds no_flags Map.empty) 20 40 5 = Inr (0, 0, 0)"
proof -
  have scalars:
    "gate_threshold (resolve_thresholds a cfg) =
       (case arg_threshold a of Some t \<Rightarrow> PInt t
        | None \<Rightarrow> (case cfg ''threshold'' of Some c \<Rightarrow> c | None \<Rightarrow> PInt 70))"
    "cx_exc (resolve_thresholds a cfg) =
       resolve cfg (arg_complexity_excellent a) ''complexity_excellent'' (PInt 5)"
    "cx_acc (resolve_thresholds a cfg) =
       resolve cfg (arg_complexity_acceptable a) ''complexity_acceptable'' (PInt 10)"
    "cx_poor (resolve_thresholds a cfg) =
       resolve cfg (arg_complexity_poor a) ''complexity_poor'' (PInt 20)"
    "cov_exc (resolve_thresholds a cfg) =
       resolve cfg (arg_coverage_excellent a) ''coverage_excellent'' (PInt 90)"
    "cov_acc (resolve_thresholds a cfg) =
       resolve cfg (arg_coverage_acceptable a) ''coverage_acceptable'' (PInt 70)"
    "cov_poor (resolve_thresholds a cfg) =
       resolve cfg (arg_coverage_poor a) ''coverage_poor'' (PInt 40)"
    "ap_exc (resolve_thresholds a cfg) =
       resolve cfg (arg_antipattern_excellent a) ''antipattern_excellent'' (PInt 0)"
    "ap_acc (resolve_thresholds a cfg) =
       resolve cfg (arg_antipattern_acceptable a) ''antipattern_acceptable'' (PInt 2)"
    "ap_poor (resolve_thresholds a cfg) =
       resolve cfg (arg_antipattern_poor a) ''antipattern_poor'' (PInt 5)"
    by (simp_all add: resolve_thresholds_def default_defs)
  show ?thesis
    unfolding scalars resolve_order
    using score_signals_iff [of th avg_cc pct density cx cov ap] default_scores
    by simp
qed

theorem threshold_resolution_witness:
  "cx_exc (resolve_thresholds (no_flags\<lparr>arg_complexity_excellent := Some 4\<rparr>)
             [''complexity_excellent'' \<mapsto> PFloat 6]) = PFloat 4 \<and>
   cx_exc (resolve_thresholds no_flags [''complexity_excellent'' \<mapsto> PFloat 6]) = PFloat 6 \<and>
   cx_exc (resolve_thresholds no_flags Map.empty) = PInt 5 \<and>
   gate_threshold (resolve_thresholds no_flags [''threshold'' \<mapsto> PInt 80]) = PInt 80 \<and>
   gate_threshold (resolve_thresholds no_flags Map.empty) = PInt 70"
  using threshold_resolution [of "no_flags\<lparr>arg_complexity_excellent := Some 4\<rparr>"
          "[''complexity_excellent'' \<mapsto> PFloat 6]"]
        threshold_resolution [of no_flags "[''complexity_excellent'' \<mapsto> PFloat 6]"]
        threshold_resolution [of no_flags Map.empty]
        threshold_resolution [of no_flags "[''threshold'' \<mapsto> PInt 80]"]
  by (simp add: no_flags_def)

lemma startswith_append_self: "startswith (p @ s) p"
  by (induction p) auto

text \<open>
  C2. The report is headed PASSED exactly when the total is greater than or equal to the
  threshold, and BLOCKED exactly when it is below; a total equal to the threshold passes.
  The process exits with status 1 exactly when \<^verbatim>\<open>--fail-on-threshold\<close> is set and the total
  is strictly below the threshold, and with status 0 in every other case.
\<close>

theorem gate_pass_and_exit:
  "startswith (build_report L b t)
      (''## '' @ check_mark @ '' AI Code Quality Gate '' @ em_dash @ '' PASSED'')
     = (total_score b \<ge> num_val t) \<and>
   startswith (build_report L b t)
      (''## '' @ cross_mark @ '' AI Code Quality Gate '' @ em_dash @ '' BLOCKED'')
     = (total_score b < num_val t) \<and>
   (exit_status fail_on_threshold b t = 1) = (fail_on_threshold \<and> total_score b < num_val t) \<and>
   (exit_status fail_on_threshold b t = 0) = (\<not> (fail_on_threshold \<and> total_score b < num_val t))"
proof (cases "total_score b \<ge> num_val t")
  case True
  then show ?thesis
    by (simp add: build_report_def report_lines_def exit_status_def Let_def
          check_mark_def cross_mark_def em_dash_def)
next
  case False
  then show ?thesis
    by (simp add: build_report_def report_lines_def exit_status_def Let_def
          check_mark_def cross_mark_def em_dash_def)
qed

theorem gate_pass_and_exit_witness:
  "startswith (build_report sample_lib (sample_breakdown 5) (PInt 70))
      (''## '' @ check_mark @ '' AI Code Quality Gate '' @ em_dash @ '' PASSED'') \<and>
   exit_status True (sample_breakdown 5) (PInt 70) = 0 \<and>
   startswith (build_report sample_lib (sample_breakdown 4.5) (PInt 70))
      (''## '' @ cross_mark @ '' AI Code Quality Gate '' @ em_dash @ '' BLOCKED'') \<and>
   exit_status True (sample_breakdown 4.5) (PInt 70) = 1 \<and>
   exit_status False (sample_breakdown 4.5) (PInt 70) = 0"
  using gate_pass_and_exit [of sample_lib "sample_breakdown 5" "PInt 70" True]
        gate_pass_and_exit [of sample_lib "sample_breakdown 4.5" "PInt 70" True]
        gate_pass_and_exit [of sample_lib "sample_breakdown 4.5" "PInt 70" False]
  by (simp add: sample_breakdown_def total_score_def)

section \<open>The configuration loader\<close>

lemma plain_bound_py_float: "plain_bound v \<Longrightarrow> \<exists>x. py_float L v = Inr x"
  by (cases v) auto

lemma plain_threshold_py_int: "plain_threshold v \<Longrightarrow> \<exists>n. py_int L v = Inr n"
  by (induction v rule: plain_threshold.induct) auto

lemma read_keys_table:
  "\<forall>k \<in> set keys. entry_ok plain_bound kvs k \<Longrightarrow>
   \<exists>d. read_keys L prefix (TTable kvs) keys res = Inr d"
proof (induction keys arbitrary: res)
  case Nil
  then show ?case by simp
next
  case (Cons key keys)
  show ?case
  proof (cases "map_of kvs key")
    case None
    with Cons show ?thesis by simp
  next
    case (Some v)
    with Cons.prems have "plain_bound v" by (simp add: entry_ok_def)
    then obtain x where "py_float L v = Inr x" using plain_bound_py_float by blast
    with Some Cons show ?thesis by simp
  qed
qed

lemma read_keys_absent:
  "read_keys L prefix (TTable []) keys res = Inr res"
  by (induction keys) auto

lemma read_section_ok:
  "section_ok gate sect \<Longrightarrow>
   \<exists>d. (case toml_get (TTable gate) sect (TTable []) of
          Inl err \<Rightarrow> Inl err
        | Inr sub \<Rightarrow> read_keys L prefix sub [''excellent'', ''acceptable'', ''poor''] res) = Inr d"
proof (cases "map_of gate sect")
  case None
  then show ?thesis by (simp add: read_keys_absent)
next
  case (Some v)
  assume ok: "section_ok gate sect"
  with Some obtain kvs where v: "v = TTable kvs"
    by (cases v) (auto simp add: section_ok_def)
  with ok Some
  have "\<forall>k \<in> set [''excellent'', ''acceptable'', ''poor'']. entry_ok plain_bound kvs k"
    by (simp add: section_ok_def)
  from read_keys_table [OF this] Some v show ?thesis by simp
qed

lemma read_sections_ok:
  "\<forall>sp \<in> set sects. section_ok gate (fst sp) \<Longrightarrow>
   \<exists>d. read_sections L (TTable gate) sects res = Inr d"
proof (induction sects arbitrary: res)
  case Nil
  then show ?case by simp
next
  case (Cons sp sects)
  obtain sect prefix where sp: "sp = (sect, prefix)" by (cases sp)
  with Cons.prems have "section_ok gate sect" by simp
  from read_section_ok [OF this, of L prefix res]
  obtain d where d: "(case toml_get (TTable gate) sect (TTable []) of
          Inl err \<Rightarrow> Inl err
        | Inr sub \<Rightarrow> read_keys L prefix sub [''excellent'', ''acceptable'', ''poor''] res) = Inr d"
    by blast
  from Cons.prems have "\<forall>sp \<in> set sects. section_ok gate (fst sp)" by simp
  from Cons.IH [OF this, of d] obtain d' where "read_sections L (TTable gate) sects d = Inr d'"
    by blast
  with d sp show ?case by (simp split: sum.splits)
qed

lemma gate_overrides_no_tool:
  "map_of data ''tool'' = None \<Longrightarrow> gate_overrides L data = Inr Map.empty"
  by (simp add: gate_overrides_def read_keys_absent)

lemma gate_overrides_no_gate:
  "map_of data ''tool'' = Some (TTable tool) \<Longrightarrow> map_of tool ''ai-gate'' = None \<Longrightarrow>
   gate_overrides L data = Inr Map.empty"
  by (simp add: gate_overrides_def read_keys_absent)

lemma gate_overrides_well_typed:
  assumes "map_of data ''tool'' = Some (TTable tool)"
    and "map_of tool ''ai-gate'' = Some (TTable gate)"
    and "gate_well_typed gate"
  shows "\<exists>d. gate_overrides L data = Inr d"
proof -
  from assms(3) have secs:
    "\<forall>sp \<in> set [(''complexity'', ''complexity''), (''coverage'', ''coverage''),
                   (''antipatterns'', ''antipattern'')]. section_ok gate (fst sp)"
    by (simp add: gate_well_typed_def)
  note rs = read_sections_ok [OF secs]
  show ?thesis
  proof (cases "map_of gate ''threshold''")
    case None
    with assms(1,2) rs [of L Map.empty] show ?thesis
      by (simp add: gate_overrides_def)
  next
    case (Some v)
    with assms(3) have "plain_threshold v" by (simp add: gate_well_typed_def entry_ok_def)
    then obtain n where "py_int L v = Inr n" using plain_threshold_py_int by blast
    with Some assms(1,2) rs [of L "[''threshold'' \<mapsto> CInt n]"] show ?thesis
      by (simp add: gate_overrides_def)
  qed
qed

lemma load_by_config_file:
  "load_pyproject_config L fs candidate config_path =
     (case config_file fs candidate config_path of
        StatFails \<Rightarrow> Inl OSError
      | TomlDoc doc \<Rightarrow> gate_overrides L doc
      | other \<Rightarrow> Inr Map.empty)"
proof (cases config_path)
  case None
  show ?thesis
  proof (cases candidate)
    case None
    with \<open>config_path = None\<close> show ?thesis
      by (simp add: load_pyproject_config_def config_file_def)
  next
    case (Some c)
    with \<open>config_path = None\<close> show ?thesis
      by (cases "fs c") (simp_all add: load_pyproject_config_def config_file_def)
  qed
next
  case (Some p)
  then show ?thesis
    by (cases "fs p") (simp_all add: load_pyproject_config_def config_file_def)
qed

text \<open>
  The inputs left out of the property below do raise: a failing \<^verbatim>\<open>exists()\<close>, a working
  directory that is gone, a threshold \<^verbatim>\<open>inf\<close> or \<^verbatim>\<open>nan\<close>, and a bound beyond the range of a float.
\<close>

lemma load_pyproject_config_other_raises:
  "load_pyproject_config L (\<lambda>p. StatFails) candidate (Some p) = Inl OSError"
  "load_pyproject_config L fs None None = Inl OSError"
  "load_pyproject_config L (\<lambda>p. TomlDoc (gate_doc (TFloat (Special PosInf)) (TInt 92)))
     candidate (Some p) = Inl OverflowError"
  "load_pyproject_config L (\<lambda>p. TomlDoc (gate_doc (TFloat (Special NaN)) (TInt 92)))
     candidate (Some p) = Inl ValueError"
  "load_pyproject_config L (\<lambda>p. TomlDoc (gate_doc (TInt 65) (TInt (10 ^ 400))))
     candidate (Some p) = Inl OverflowError"
  by (simp_all add: load_pyproject_config_def gate_overrides_def gate_doc_def
        float_int_bound_def)

text \<open>
  C3, amended. \<^verbatim>\<open>load_pyproject_config\<close> returns the empty override set, without raising,
  when \<^verbatim>\<open>exists()\<close> reports the file it looks at as absent, when that file cannot be opened,
  and when the TOML parser rejects it; likewise when the parsed document has no \<^verbatim>\<open>tool\<close>
  table or its \<^verbatim>\<open>tool\<close> table has no \<^verbatim>\<open>ai-gate\<close> entry. When the \<^verbatim>\<open>ai-gate\<close> section is a
  well-typed table it returns an override dictionary without raising; the partial section of
  the test suite yields the threshold 65 and the coverage bound 92.
\<close>

theorem load_pyproject_config_degrades:
  "(config_file fs candidate config_path = NoFile \<or>
    config_file fs candidate config_path = OpenFails \<or>
    config_file fs candidate config_path = ParseFails \<longrightarrow>
      load_pyproject_config L fs candidate config_path = Inr Map.empty) \<and>
   (config_file fs candidate config_path = TomlDoc data \<and> map_of data ''tool'' = None \<longrightarrow>
      load_pyproject_config L fs candidate config_path = Inr Map.empty) \<and>
   (config_file fs candidate config_path = TomlDoc data \<and>
    map_of data ''tool'' = Some (TTable tool) \<and> map_of tool ''ai-gate'' = None \<longrightarrow>
      load_pyproject_config L fs candidate config_path = Inr Map.empty) \<and>
   (config_file fs candidate config_path = TomlDoc data \<and>
    map_of data ''tool'' = Some (TTable tool) \<and>
    map_of tool ''ai-gate'' = Some (TTable gate) \<and> gate_well_typed gate \<longrightarrow>
      (\<exists>d. load_pyproject_config L fs candidate config_path = Inr d)) \<and>
   map_sum id (\<lambda>d. (d ''threshold'', d ''coverage_excellent'', d ''coverage_poor''))
     (load_pyproject_config L (\<lambda>p. TomlDoc partial_doc) candidate (Some p))
     = Inr (Some (CInt 65), Some (CFloat (Finite 92)), None)"
proof -
  have sample: "map_sum id (\<lambda>d. (d ''threshold'', d ''coverage_excellent'', d ''coverage_poor''))
     (load_pyproject_config L (\<lambda>p. TomlDoc partial_doc) candidate (Some p))
     = Inr (Some (CInt 65), Some (CFloat (Finite 92)), None)"
    by (simp add: load_pyproject_config_def gate_overrides_def partial_doc_def gate_doc_def
          float_int_bound_def)
  show ?thesis
    unfolding load_by_config_file
    using sample [unfolded load_by_config_file] gate_overrides_no_tool [of data L]
      gate_overrides_no_gate [of data tool L] gate_overrides_well_typed [of data tool gate L]
    by auto
qed

theorem load_pyproject_config_degrades_witness:
  "load_pyproject_config sample_lib (\<lambda>p. NoFile) (Some ''/work/pyproject.toml'') None
     = Inr Map.empty \<and>
   load_pyproject_config sample_lib (\<lambda>p. ParseFails) (Some ''/work/pyproject.toml'')
     (Some ''cfg.toml'') = Inr Map.empty \<and>
   load_pyproject_config sample_lib (\<lambda>p. TomlDoc [(''project'', TTable [])])
     (Some ''/work/pyproject.toml'') (Some ''cfg.toml'') = Inr Map.empty \<and>
   load_pyproject_config sample_lib (\<lambda>p. TomlDoc [(''tool'', TTable [(''black'', TTable [])])])
     (Some ''/work/pyproject.toml'') (Some ''cfg.toml'') = Inr Map.empty \<and>
   (\<exists>d. load_pyproject_config sample_lib (\<lambda>p. TomlDoc partial_doc)
          (Some ''/work/pyproject.toml'') (Some ''cfg.toml'') = Inr d)"
  using load_pyproject_config_degrades [where fs = "\<lambda>p. NoFile"
      and candidate = "Some ''/work/pyproject.toml''" and config_path = None and L = sample_lib]
    load_pyproject_config_degrades [where fs = "\<lambda>p. ParseFails"
      and candidate = "Some ''/work/pyproject.toml''" and config_path = "Some ''cfg.toml''"
      and L = sample_lib]
    load_pyproject_config_degrades [where fs = "\<lambda>p. TomlDoc [(''project'', TTable [])]"
      and candidate = "Some ''/work/pyproject.toml''" and config_path = "Some ''cfg.toml''"
      and L = sample_lib and data = "[(''project'', TTable [])]"]
    load_pyproject_config_degrades
      [where fs = "\<lambda>p. TomlDoc [(''tool'', TTable [(''black'', TTable [])])]"
      and candidate = "Some ''/work/pyproject.toml''" and config_path = "Some ''cfg.toml''"
      and L = sample_lib and data = "[(''tool'', TTable [(''black'', TTable [])])]"
      and tool = "[(''black'', TTable [])]"]
    load_pyproject_config_degrades [where fs = "\<lambda>p. TomlDoc partial_doc"
      and candidate = "Some ''/work/pyproject.toml''" and config_path = "Some ''cfg.toml''"
      and L = sample_lib and data = partial_doc
      and tool = "[(''ai-gate'', TTable [(''threshold'', TInt 65),
                     (''coverage'', TTable [(''excellent'', TInt 92)])])]"
      and gate = "[(''threshold'', TInt 65), (''coverage'', TTable [(''excellent'', TInt 92)])]"]
  by (simp add: config_file_def partial_doc_def gate_doc_def gate_well_typed_def section_ok_def
        entry_ok_def float_int_bound_def)

text \<open>
  A parsed document whose gate section is not well typed makes the loader raise: the
  conversions and lookups of lines 82-96 stand outside the \<^verbatim>\<open>try\<close>. With
  \<^verbatim>\<open>complexity = 10\<close> the test \<^verbatim>\<open>"excellent" in sub\<close> raises \<^verbatim>\<open>TypeError\<close>.
\<close>

theorem load_pyproject_config_raises:
  "load_pyproject_config sample_lib (\<lambda>p. TomlDoc ill_typed_doc) (Some ''/work/pyproject.toml'')
     (Some ''pyproject.toml'') = Inl TypeError"
  by (simp add: load_pyproject_config_def gate_overrides_def ill_typed_doc_def)

section \<open>The anti-pattern extractor\<close>

lemma count_loc_sample: "count_loc sample_tree = 100"
  by (simp add: count_loc_def sample_tree_def LOC_EXCLUDE_DIRS_def is_source_line_def strip_def
        is_space_def)

lemma count_loc_pos: "1 \<le> count_loc tree"
  by (simp add: count_loc_def)

lemma finding_warning_error: "finding_warning L r = Inl err \<Longrightarrow> err = AttributeError"
  by (cases r) (auto simp add: finding_warning_def finding_msg_def
       split: sum.splits json.splits option.splits elim: json_get.elims)


lemma finding_warnings_error: "finding_warnings L rs = Inl err \<Longrightarrow> err = AttributeError"
proof (induction rs arbitrary: err)
  case Nil
  then show ?case by simp
next
  case (Cons r rs)
  then show ?case
    by (auto split: sum.splits dest: finding_warning_error)
qed

lemma finding_warnings_length: "finding_warnings L rs = Inr ws \<Longrightarrow> length ws = length rs"
  by (induction rs arbitrary: ws) (auto split: sum.splits)

lemma finding_warnings_nth:
  "finding_warnings L rs = Inr ws \<Longrightarrow> i < length rs \<Longrightarrow> finding_warning L (rs ! i) = Inr (ws ! i)"
proof (induction rs arbitrary: ws i)
  case Nil
  then show ?case by simp
next
  case (Cons r rs)
  then show ?case
    by (cases i) (auto split: sum.splits)
qed

lemma finding_warning_shape:
  "finding_warning L r = Inr w \<Longrightarrow>
   \<exists>path_str start line msg.
     json_get r ''path'' (JStr ''?'') = Inr path_str \<and>
     json_get r ''start'' (JObj []) = Inr start \<and>
     json_get start ''line'' (JStr ''?'') = Inr line \<and>
     finding_msg r = Inr (JStr msg) \<and>
     w = [CHR 0x60] @ py_str L path_str @ '':'' @ py_str L line @ [CHR 0x60] @ '' '' @ em_dash
         @ '' '' @ clip_message msg"
  by (auto simp add: finding_warning_def split: sum.splits json.splits)

lemma clip_message_bounds:
  "length (clip_message msg) \<le> 120 \<and> newline \<notin> set (clip_message msg)"
proof -
  have "newline \<notin> set (map (\<lambda>c. if c = newline then CHR '' '' else c) msg)"
    by (auto simp add: newline_def)
  then have "newline \<notin> set (clip_message msg)"
    unfolding clip_message_def by (meson in_set_takeD)
  then show ?thesis by (simp add: clip_message_def)
qed

text \<open>The result of the extractor on a document whose findings are a list.\<close>

lemma measure_antipatterns_list:
  assumes "json_get data ''results'' (JArr []) = Inr (JArr fs)"
  shows "measure_antipatterns L (JDoc data) tree =
     (case finding_warnings L (take 10 fs) of
        Inl err \<Rightarrow> Inl err
      | Inr ws \<Rightarrow>
          Inr (real (length fs) / real (count_loc tree) * 100,
               ''**'' @ str_nat (length fs) @ ''** anti-pattern findings (''
                 @ lib_format_f L 2 (real (length fs) / real (count_loc tree) * 100)
                 @ '' per 100 LOC, ~'' @ str_nat (count_loc tree) @ '' source lines)'',
               if length fs > 10 then ws @ [rollup_warning (length fs - 10)] else ws))"
proof -
  have "count_loc tree > 0" using count_loc_pos [of tree] by simp
  with assms show ?thesis
    by (simp add: measure_antipatterns_def py_div_def Let_def split: sum.splits)
qed

lemma measure_antipatterns_density:
  assumes "measure_antipatterns L (JDoc data) tree = Inr (density, detail, ws)"
  shows "\<exists>results n. json_get data ''results'' (JArr []) = Inr results \<and>
           json_len results = Inr n \<and> density = real n / real (count_loc tree) * 100"
proof -
  have "count_loc tree > 0" using count_loc_pos [of tree] by simp
  with assms show ?thesis
    by (auto simp add: measure_antipatterns_def py_div_def Let_def split: sum.splits)
qed

lemma measure_antipatterns_no_zero_division:
  "measure_antipatterns L (JDoc data) tree \<noteq> Inl ZeroDivisionError"
proof
  assume raised: "measure_antipatterns L (JDoc data) tree = Inl ZeroDivisionError"
  have pos: "count_loc tree > 0" using count_loc_pos [of tree] by simp
  have get: "\<And>e. json_get data ''results'' (JArr []) = Inl e \<Longrightarrow> e = AttributeError"
    by (cases data) auto
  have len: "\<And>v e. json_len v = Inl e \<Longrightarrow> e = TypeError"
    subgoal for v e by (cases v) auto
    done
  have first: "\<And>v e. json_first10 v = Inl e \<Longrightarrow> e = TypeError"
    subgoal for v e by (cases v) auto
    done
  from raised pos show False
    by (auto simp add: measure_antipatterns_def py_div_def Let_def
          split: sum.splits dest: get len first finding_warnings_error)
qed

lemma sample_density:
  "map_sum id fst (measure_antipatterns L (JDoc (findings_doc 2)) sample_tree) = Inr 2"
  by (simp add: measure_antipatterns_list [where fs = "replicate 2 sample_finding"]
        findings_doc_def count_loc_sample sample_finding_def finding_warning_def finding_msg_def
        numeral_2_eq_2)

text \<open>
  C5. The line count that the anti-pattern extractor divides by is at least 1, so the
  division never raises \<^verbatim>\<open>ZeroDivisionError\<close>; whenever the extractor returns on a decoded
  findings file, the density is the number of findings divided by the line count, times
  100, and it does return when the first ten findings are well formed. Two findings over
  the 100-line sample tree (its noise directory excluded) give the density 2.
\<close>

theorem antipattern_density:
  "1 \<le> count_loc tree \<and>
   measure_antipatterns L (JDoc data) tree \<noteq> Inl ZeroDivisionError \<and>
   (measure_antipatterns L (JDoc data) tree = Inr (density, detail, ws) \<longrightarrow>
      (\<exists>results n. json_get data ''results'' (JArr []) = Inr results \<and>
         json_len results = Inr n \<and> density = real n / real (count_loc tree) * 100)) \<and>
   (json_get data ''results'' (JArr []) = Inr (JArr fs) \<and>
    finding_warnings L (take 10 fs) = Inr ws10 \<longrightarrow>
      (\<exists>detail' ws'. measure_antipatterns L (JDoc data) tree =
         Inr (real (length fs) / real (count_loc tree) * 100, detail', ws'))) \<and>
   count_loc sample_tree = 100 \<and>
   map_sum id fst (measure_antipatterns L (JDoc (findings_doc 2)) sample_tree) = Inr 2"
proof -
  have returns: "json_get data ''results'' (JArr []) = Inr (JArr fs) \<and>
      finding_warnings L (take 10 fs) = Inr ws10 \<longrightarrow>
      (\<exists>detail' ws'. measure_antipatterns L (JDoc data) tree =
         Inr (real (length fs) / real (count_loc tree) * 100, detail', ws'))"
    by (simp add: measure_antipatterns_list)
  from count_loc_pos measure_antipatterns_no_zero_division measure_antipatterns_density
    returns count_loc_sample sample_density
  show ?thesis by blast
qed

theorem antipattern_density_witness:
  "map_sum id fst (measure_antipatterns sample_lib (JDoc (findings_doc 3)) sample_tree) = Inr 3"
proof -
  have get: "json_get (findings_doc 3) ''results'' (JArr []) = Inr (JArr (replicate 3 sample_finding))"
    by (simp add: findings_doc_def)
  have ws: "finding_warnings sample_lib (take 10 (replicate 3 sample_finding)) =
      Inr (replicate 3 (''`src/main.py:1` '' @ em_dash @ '' bad pattern''))"
    by (simp add: numeral_3_eq_3 sample_finding_def finding_warning_def finding_msg_def
          py_str_def clip_message_def str_int_def str_nat.simps newline_def)
  note inst = antipattern_density [where data = "findings_doc 3" and tree = sample_tree
      and L = sample_lib and fs = "replicate 3 sample_finding"
      and ?ws10.0 = "replicate 3 (''`src/main.py:1` '' @ em_dash @ '' bad pattern'')"]
  from inst have cnt: "count_loc sample_tree = 100" by blast
  from inst get ws obtain detail' ws' where
    "measure_antipatterns sample_lib (JDoc (findings_doc 3)) sample_tree =
       Inr (real (length (replicate 3 sample_finding)) / real (count_loc sample_tree) * 100,
            detail', ws')"
    by blast
  with cnt show ?thesis by simp
qed


lemma rollup_five: "rollup_warning 5 = ''...and 5 more findings (see semgrep-results.json)''"
  by (simp add: rollup_warning_def str_nat.simps)

lemma sample_warning:
  "finding_warning L sample_finding = Inr (''`src/main.py:1` '' @ em_dash @ '' bad pattern'')"
  by (simp add: sample_finding_def finding_warning_def finding_msg_def py_str_def
        clip_message_def str_int_def str_nat.simps newline_def)

lemma sample_warnings:
  "finding_warnings L (replicate n sample_finding) =
     Inr (replicate n (''`src/main.py:1` '' @ em_dash @ '' bad pattern''))"
  by (induction n) (simp_all add: sample_warning)

lemma fifteen_findings:
  "map_sum id (\<lambda>r. (length (snd (snd r)), last (snd (snd r))))
     (measure_antipatterns L (JDoc (findings_doc 15)) tree)
   = Inr (11, ''...and 5 more findings (see semgrep-results.json)'')"
  by (simp add: measure_antipatterns_list [where fs = "replicate 15 sample_finding"]
        findings_doc_def sample_warnings rollup_five)

text \<open>
  C6. When the extractor returns on a list of findings, its warnings are one per finding
  for the first ten findings, each ending in the finding's message with newlines replaced
  by spaces and cut to at most 120 characters, followed by exactly one rollup warning
  stating the remainder count when, and only when, there are more than ten findings. Fifteen
  findings give 11 warnings, the last one stating "5 more".
\<close>

theorem antipattern_warnings:
  "(json_get data ''results'' (JArr []) = Inr (JArr fs) \<and>
    measure_antipatterns L (JDoc data) tree = Inr (density, detail, ws) \<longrightarrow>
      length ws = (if length fs > 10 then 11 else length fs) \<and>
      (\<forall>i. i < min 10 (length fs) \<longrightarrow>
         (\<exists>path_str start line msg.
            json_get (fs ! i) ''path'' (JStr ''?'') = Inr path_str \<and>
            json_get (fs ! i) ''start'' (JObj []) = Inr start \<and>
            json_get start ''line'' (JStr ''?'') = Inr line \<and>
            finding_msg (fs ! i) = Inr (JStr msg) \<and>
            ws ! i = [CHR 0x60] @ py_str L path_str @ '':'' @ py_str L line @ [CHR 0x60] @ '' ''
                     @ em_dash @ '' '' @ clip_message msg)) \<and>
      (length fs > 10 \<longrightarrow> ws ! 10 = rollup_warning (length fs - 10))) \<and>
   clip_message m = take 120 (map (\<lambda>c. if c = newline then CHR '' '' else c) m) \<and>
   length (clip_message m) \<le> 120 \<and> newline \<notin> set (clip_message m) \<and>
   rollup_warning 5 = ''...and 5 more findings (see semgrep-results.json)'' \<and>
   map_sum id (\<lambda>r. (length (snd (snd r)), last (snd (snd r))))
     (measure_antipatterns L (JDoc (findings_doc 15)) tree)
   = Inr (11, ''...and 5 more findings (see semgrep-results.json)'')"
proof -
  have general: "length ws = (if length fs > 10 then 11 else length fs) \<and>
      (\<forall>i. i < min 10 (length fs) \<longrightarrow>
         (\<exists>path_str start line msg.
            json_get (fs ! i) ''path'' (JStr ''?'') = Inr path_str \<and>
            json_get (fs ! i) ''start'' (JObj []) = Inr start \<and>
            json_get start ''line'' (JStr ''?'') = Inr line \<and>
            finding_msg (fs ! i) = Inr (JStr msg) \<and>
            ws ! i = [CHR 0x60] @ py_str L path_str @ '':'' @ py_str L line @ [CHR 0x60] @ '' ''
                     @ em_dash @ '' '' @ clip_message msg)) \<and>
      (length fs > 10 \<longrightarrow> ws ! 10 = rollup_warning (length fs - 10))"
    if get: "json_get data ''results'' (JArr []) = Inr (JArr fs)"
      and res: "measure_antipatterns L (JDoc data) tree = Inr (density, detail, ws)"
  proof -
    from res obtain ws10 where ws10: "finding_warnings L (take 10 fs) = Inr ws10"
      and ws: "ws = (if length fs > 10 then ws10 @ [rollup_warning (length fs - 10)] else ws10)"
      unfolding measure_antipatterns_list [OF get] by (auto split: sum.splits)
    have len10: "length ws10 = min 10 (length fs)"
      using finding_warnings_length [OF ws10] by (simp add: min.commute)
    have len: "length ws = (if length fs > 10 then 11 else length fs)"
      using ws len10 by auto
    have each: "\<exists>path_str start line msg.
            json_get (fs ! i) ''path'' (JStr ''?'') = Inr path_str \<and>
            json_get (fs ! i) ''start'' (JObj []) = Inr start \<and>
            json_get start ''line'' (JStr ''?'') = Inr line \<and>
            finding_msg (fs ! i) = Inr (JStr msg) \<and>
            ws ! i = [CHR 0x60] @ py_str L path_str @ '':'' @ py_str L line @ [CHR 0x60] @ '' ''
                     @ em_dash @ '' '' @ clip_message msg"
      if i: "i < min 10 (length fs)" for i
    proof -
      from i have "i < length (take 10 fs)" by simp
      from finding_warnings_nth [OF ws10 this] i
      have w: "finding_warning L (fs ! i) = Inr (ws10 ! i)" by simp
      from i len10 ws have "ws ! i = ws10 ! i" by (auto simp add: nth_append)
      with finding_warning_shape [OF w] show ?thesis by simp
    qed
    have roll: "ws ! 10 = rollup_warning (length fs - 10)" if "length fs > 10"
      using that ws len10 by (simp add: nth_append)
    from len each roll show ?thesis by blast
  qed
  have clip: "clip_message m = take 120 (map (\<lambda>c. if c = newline then CHR '' '' else c) m)"
    by (simp add: clip_message_def)
  from general clip clip_message_bounds [of m] rollup_five fifteen_findings [of L tree]
  show ?thesis by blast
qed

theorem antipattern_warnings_witness:
  "map_sum id (\<lambda>r. snd (snd r)) (measure_antipatterns sample_lib (JDoc (findings_doc 11)) sample_tree)
   = Inr (replicate 10 (''`src/main.py:1` '' @ em_dash @ '' bad pattern'')
          @ [''...and 1 more findings (see semgrep-results.json)''])"
proof -
  have get: "json_get (findings_doc 11) ''results'' (JArr []) = Inr (JArr (replicate 11 sample_finding))"
    by (simp add: findings_doc_def)
  have res: "measure_antipatterns sample_lib (JDoc (findings_doc 11)) sample_tree =
      Inr (11, ''**11** anti-pattern findings (0 per 100 LOC, ~100 source lines)'',
           replicate 10 (''`src/main.py:1` '' @ em_dash @ '' bad pattern'')
           @ [''...and 1 more findings (see semgrep-results.json)''])"
    by (simp add: measure_antipatterns_list [OF get] sample_warnings count_loc_sample
          rollup_warning_def str_nat.simps sample_lib_def)
  note inst = antipattern_warnings [where data = "findings_doc 11" and tree = sample_tree
      and L = sample_lib and fs = "replicate 11 sample_finding" and density = 11
      and detail = "''**11** anti-pattern findings (0 per 100 LOC, ~100 source lines)''"
      and ws = "replicate 10 (''`src/main.py:1` '' @ em_dash @ '' bad pattern'')
           @ [''...and 1 more findings (see semgrep-results.json)'']"]
  from inst get res
  have "length (replicate 10 (''`src/main.py:1` '' @ em_dash @ '' bad pattern'')
           @ [''...and 1 more findings (see semgrep-results.json)'']) =
        (if length (replicate 11 sample_finding) > 10 then 11
         else length (replicate 11 sample_finding))"
    by blast
  with res show ?thesis by simp
qed

section \<open>The history store\<close>

lemma rev_limit_rev:
  "rev (sql_limit limit (rev xs)) = (if limit < 0 then xs else last_n (nat limit) xs)"
  by (simp add: sql_limit_def last_n_def rev_take)

lemma query_trend_rows:
  "query_trend db rp limit =
     map trend_dict (if limit < 0 then repo_runs_by_time db rp
                     else last_n (nat limit) (repo_runs_by_time db rp))"
  unfolding query_trend_def order_by_recorded_at_desc_def Let_def rev_limit_rev
    repo_runs_by_time_def ..

lemma sorted_repo_runs: "sorted (map recorded_at (repo_runs_by_time db rp))"
  by (simp add: repo_runs_by_time_def)

lemma sorted_last_n: "sorted (map f xs) \<Longrightarrow> sorted (map f (last_n n xs))"
  unfolding last_n_def drop_map [symmetric] by (rule sorted_wrt_drop)

lemma set_repo_runs: "set (repo_runs_by_time db rp) = {r \<in> set db. repo r = rp}"
  by (auto simp add: repo_runs_by_time_def)

lemma length_repo_runs:
  "length (repo_runs_by_time db rp) = length (filter (\<lambda>r. repo r = rp) db)"
  by (simp add: repo_runs_by_time_def)

lemma filter_other_repo: "\<forall>r \<in> set db. repo r \<noteq> rp \<Longrightarrow> filter (\<lambda>r. repo r = rp) db = []"
  by (induction db) auto

lemma three_runs_trend:
  assumes "\<forall>r \<in> set db. repo r \<noteq> ''org/repo''" and "t1 < t2" and "t2 < t3"
  shows "map (\<lambda>d. map_of d ''score'') (query_trend (three_runs db t1 t2 t3) ''org/repo'' 30) =
     [Some (SReal 60), Some (SReal 70), Some (SReal 80)]"
proof -
  from assms(2,3) have le: "t1 \<le> t2" "t2 \<le> t3" "t1 \<le> t3" by auto
  from assms(2,3) have nle: "\<not> t2 \<le> t1" "\<not> t3 \<le> t2" "\<not> t3 \<le> t1" by auto
  show ?thesis
    by (simp add: query_trend_rows repo_runs_by_time_def three_runs_def record_score_def
          record_run_def Let_def filter_other_repo [OF assms(1)] le nle last_n_def trend_dict_def)
qed


text \<open>
  C7, amended. For every repository and limit, \<open>query_trend\<close> returns the stored runs of
  that repository in ascending order of their timestamps: all of them for a negative limit,
  otherwise the last \<open>limit\<close> of them. Three runs with the scores 60, 70, 80 recorded at
  strictly increasing clock readings come back in that order.
\<close>

theorem query_trend_oldest_first:
  "query_trend db rp limit =
     map trend_dict (if limit < 0 then repo_runs_by_time db rp
                     else last_n (nat limit) (repo_runs_by_time db rp)) \<and>
   sorted (map recorded_at (repo_runs_by_time db rp)) \<and>
   sorted (map recorded_at (last_n n (repo_runs_by_time db rp))) \<and>
   set (repo_runs_by_time db rp) = {r \<in> set db. repo r = rp} \<and>
   length (repo_runs_by_time db rp) = length (filter (\<lambda>r. repo r = rp) db) \<and>
   ((\<forall>r \<in> set db0. repo r \<noteq> ''org/repo'') \<and> t1 < t2 \<and> t2 < t3 \<longrightarrow>
      map (\<lambda>d. map_of d ''score'') (query_trend (three_runs db0 t1 t2 t3) ''org/repo'' 30) =
        [Some (SReal 60), Some (SReal 70), Some (SReal 80)]) \<and>
   map (\<lambda>d. map_of d ''score'')
     (query_trend (three_runs [] ''2026-01-05T10:00:00.000001+00:00''
         ''2026-01-05T10:00:00.000002+00:00'' ''2026-01-05T10:00:01+00:00'') ''org/repo'' 30) =
     [Some (SReal 60), Some (SReal 70), Some (SReal 80)]"
proof -
  have sample: "map (\<lambda>d. map_of d ''score'')
     (query_trend (three_runs [] ''2026-01-05T10:00:00.000001+00:00''
         ''2026-01-05T10:00:00.000002+00:00'' ''2026-01-05T10:00:01+00:00'') ''org/repo'' 30) =
     [Some (SReal 60), Some (SReal 70), Some (SReal 80)]"
    by (rule three_runs_trend) simp_all
  from query_trend_rows [of db rp limit] sorted_repo_runs [of db rp]
    sorted_last_n [OF sorted_repo_runs, of n db rp] set_repo_runs [of db rp]
    length_repo_runs [of db rp] three_runs_trend [of db0 t1 t2 t3] sample
  show ?thesis by blast
qed

theorem query_trend_oldest_first_witness:
  "map (\<lambda>d. map_of d ''score'')
     (query_trend (three_runs (record_score [] ''2026-01-07T08:00:00+00:00'' 99 ''org/other'')
         ''2026-01-05T10:00:00+00:00'' ''2026-01-05T11:00:00+00:00''
         ''2026-01-06T09:30:00+00:00'') ''org/repo'' 30) =
     [Some (SReal 60), Some (SReal 70), Some (SReal 80)]"
proof -
  have hyp: "(\<forall>r \<in> set (record_score [] ''2026-01-07T08:00:00+00:00'' 99 ''org/other'').
               repo r \<noteq> ''org/repo'') \<and>
      ''2026-01-05T10:00:00+00:00'' < ''2026-01-05T11:00:00+00:00'' \<and>
      ''2026-01-05T11:00:00+00:00'' < ''2026-01-06T09:30:00+00:00''"
    by (simp add: record_score_def record_run_def Let_def)
  from hyp query_trend_oldest_first
      [where ?db0.0 = "record_score [] ''2026-01-07T08:00:00+00:00'' 99 ''org/other''"
        and ?t1.0 = "''2026-01-05T10:00:00+00:00''" and ?t2.0 = "''2026-01-05T11:00:00+00:00''"
        and ?t3.0 = "''2026-01-06T09:30:00+00:00''"]
  show ?thesis by blast
qed


text \<open>
  Without increasing clock readings the runs do not come back in insertion order:
  \<open>query_trend\<close> orders by the stored readings. Here the clock steps back by one second
  between the first and the second run.
\<close>

theorem trend_not_in_insertion_order:
  "map (\<lambda>d. map_of d ''score'')
     (query_trend (three_runs [] ''2026-01-05T10:00:01+00:00'' ''2026-01-05T10:00:00+00:00''
         ''2026-01-05T10:00:02+00:00'') ''org/repo'' 30) =
     [Some (SReal 70), Some (SReal 60), Some (SReal 80)]"
  by (simp add: query_trend_def order_by_recorded_at_desc_def sql_limit_def three_runs_def
        record_score_def record_run_def Let_def trend_dict_def)

lemma query_stats_nonempty:
  assumes "filter (\<lambda>r. repo r = rp) db \<noteq> []"
  shows "query_stats L db rp \<noteq> [] \<and>
     map_of (query_stats L db rp) ''total_runs'' =
       Some (SInt (int (length (filter (\<lambda>r. repo r = rp) db)))) \<and>
     map_of (query_stats L db rp) ''passed_runs'' =
       Some (SInt (sum_list (map passed (filter (\<lambda>r. repo r = rp) db)))) \<and>
     map_of (query_stats L db rp) ''pass_rate'' =
       Some (SReal (lib_round L
         (real_of_int (sum_list (map passed (filter (\<lambda>r. repo r = rp) db)))
            / real_of_int (int (length (filter (\<lambda>r. repo r = rp) db))) * 100) 1))"
  using assms by (simp add: query_stats_def Let_def)

lemma empty_repo_queries:
  assumes "\<forall>r \<in> set db. repo r \<noteq> rp"
  shows "query_trend db rp limit = [] \<and> query_latest db rp br = None \<and> query_stats L db rp = []"
proof -
  have none: "filter (\<lambda>r. repo r = rp) db = []"
    using assms by (rule filter_other_repo)
  have none_branch: "filter (\<lambda>r. repo r = rp \<and> branch r = b) db = []" for b
    using assms by (induction db) auto
  have trend: "query_trend db rp limit = []"
    by (simp add: query_trend_def order_by_recorded_at_desc_def sql_limit_def none)
  have latest: "query_latest db rp br = None"
    by (cases br)
       (simp_all add: query_latest_def order_by_recorded_at_desc_def sql_limit_def none
          none_branch)
  have stats: "query_stats L db rp = []"
    by (simp add: query_stats_def none)
  from trend latest stats show ?thesis by blast
qed

text \<open>
  C8. For a repository without recorded runs \<open>query_trend\<close> returns the empty list,
  \<open>query_latest\<close> returns \<open>None\<close> (with or without a branch filter) and \<open>query_stats\<close>
  returns the dictionary without keys. For a repository with runs \<open>query_stats\<close> is not
  empty, and its \<open>pass_rate\<close> is \<open>passed_runs / total_runs * 100\<close> rounded to one decimal
  by \<^verbatim>\<open>round\<close>.
\<close>

theorem empty_repo_and_pass_rate:
  "((\<forall>r \<in> set db. repo r \<noteq> rp) \<longrightarrow>
      query_trend db rp limit = [] \<and> query_latest db rp br = None \<and>
      query_stats L db rp = []) \<and>
   ((\<exists>r \<in> set db. repo r = rp) \<longrightarrow>
      query_stats L db rp \<noteq> [] \<and>
      map_of (query_stats L db rp) ''total_runs'' =
        Some (SInt (int (length (filter (\<lambda>r. repo r = rp) db)))) \<and>
      map_of (query_stats L db rp) ''passed_runs'' =
        Some (SInt (sum_list (map passed (filter (\<lambda>r. repo r = rp) db)))) \<and>
      map_of (query_stats L db rp) ''pass_rate'' =
        Some (SReal (lib_round L
          (real_of_int (sum_list (map passed (filter (\<lambda>r. repo r = rp) db)))
             / real_of_int (int (length (filter (\<lambda>r. repo r = rp) db))) * 100) 1)))"
proof -
  have "filter (\<lambda>r. repo r = rp) db \<noteq> []" if "\<exists>r \<in> set db. repo r = rp"
    using that by (simp add: filter_empty_conv)
  with query_stats_nonempty [of rp db L] empty_repo_queries [of db rp limit br L]
  show ?thesis by blast
qed

theorem empty_repo_and_pass_rate_witness:
  "query_trend sample_store ''org/nonexistent'' 30 = [] \<and>
   query_latest sample_store ''org/nonexistent'' None = None \<and>
   query_stats sample_lib sample_store ''org/nonexistent'' = [] \<and>
   map_of (query_stats sample_lib sample_store ''org/repo'') ''total_runs'' = Some (SInt 3) \<and>
   map_of (query_stats sample_lib sample_store ''org/repo'') ''passed_runs'' = Some (SInt 2) \<and>
   map_of (query_stats sample_lib sample_store ''org/repo'') ''pass_rate'' =
     Some (SReal (lib_round sample_lib (2 / 3 * 100) 1))"
proof -
  have absent: "\<forall>r \<in> set sample_store. repo r \<noteq> ''org/nonexistent''"
    by (simp add: sample_store_def record_score_def record_run_def Let_def)
  have present: "\<exists>r \<in> set sample_store. repo r = ''org/repo''"
    by (simp add: sample_store_def record_score_def record_run_def Let_def)
  have rows: "length (filter (\<lambda>r. repo r = ''org/repo'') sample_store) = 3"
    "sum_list (map passed (filter (\<lambda>r. repo r = ''org/repo'') sample_store)) = 2"
    by (simp_all add: sample_store_def record_score_def record_run_def Let_def)
  from absent empty_repo_and_pass_rate [of sample_store "''org/nonexistent''" 30 None sample_lib]
  have empty: "query_trend sample_store ''org/nonexistent'' 30 = [] \<and>
      query_latest sample_store ''org/nonexistent'' None = None \<and>
      query_stats sample_lib sample_store ''org/nonexistent'' = []"
    by blast
  from present empty_repo_and_pass_rate [of sample_store "''org/repo''" 30 None sample_lib]
  have "map_of (query_stats sample_lib sample_store ''org/repo'') ''total_runs'' =
        Some (SInt (int (length (filter (\<lambda>r. repo r = ''org/repo'') sample_store)))) \<and>
      map_of (query_stats sample_lib sample_store ''org/repo'') ''passed_runs'' =
        Some (SInt (sum_list (map passed (filter (\<lambda>r. repo r = ''org/repo'') sample_store)))) \<and>
      map_of (query_stats sample_lib sample_store ''org/repo'') ''pass_rate'' =
        Some (SReal (lib_round sample_lib
          (real_of_int (sum_list (map passed (filter (\<lambda>r. repo r = ''org/repo'') sample_store)))
             / real_of_int (int (length (filter (\<lambda>r. repo r = ''org/repo'') sample_store)))
             * 100) 1))"
    by blast
  with empty show ?thesis unfolding rows by simp
qed


lemma insort_key_snoc:
  "f y \<le> f x \<Longrightarrow> insort_key f y (zs @ [x]) = insort_key f y zs @ [x]"
  by (induction zs) auto

lemma sort_key_snoc:
  "\<forall>y \<in> set xs. f y \<le> f x \<Longrightarrow> sort_key f (xs @ [x]) = sort_key f xs @ [x]"
proof (induction xs)
  case Nil
  then show ?case by simp
next
  case (Cons a xs)
  then have "sort_key f (xs @ [x]) = sort_key f xs @ [x]" by simp
  moreover from Cons.prems have "f a \<le> f x" by simp
  ultimately show ?case by (simp add: insort_key_snoc)
qed

lemma foldr_max_upper: "r \<in> set db \<Longrightarrow> row_id r \<le> foldr max (map row_id db) 0"
  by (induction db) auto

lemma next_row_id_fresh: "r \<in> set db \<Longrightarrow> row_id r < next_row_id db"
  using foldr_max_upper [of r db] by (simp add: next_row_id_def)

lemma next_row_id_pos: "0 < next_row_id db"
proof -
  have "0 \<le> foldr max (map row_id db) 0" by (induction db) auto
  then show ?thesis by (simp add: next_row_id_def)
qed

lemma latest_after_record:
  assumes "\<forall>r \<in> set db. repo r = rp \<longrightarrow> recorded_at r < now"
  shows "query_latest (fst (record_run db now s rp br p sh th c1 c2 c3)) rp None =
     Some (run_dict \<lparr> row_id = snd (record_run db now s rp br p sh th c1 c2 c3),
                      recorded_at = now, repo = rp, branch = br, pr = p, sha = sh, score = s,
                      passed = (if s \<ge> th then 1 else 0), threshold = th,
                      run_complexity_score = c1, run_coverage_score = c2,
                      run_antipattern_score = c3 \<rparr>)"
proof -
  define row where "row = \<lparr> row_id = next_row_id db,
                      recorded_at = now, repo = rp, branch = br, pr = p, sha = sh, score = s,
                      passed = (if s \<ge> th then (1::int) else 0), threshold = th,
                      run_complexity_score = c1, run_coverage_score = c2,
                      run_antipattern_score = c3 \<rparr>"
  have rec: "record_run db now s rp br p sh th c1 c2 c3 = (db @ [row], next_row_id db)"
    by (simp add: record_run_def row_def Let_def)
  have sel: "filter (\<lambda>r. repo r = rp) (db @ [row]) = filter (\<lambda>r. repo r = rp) db @ [row]"
    by (simp add: row_def)
  from assms have "\<forall>y \<in> set (filter (\<lambda>r. repo r = rp) db). recorded_at y \<le> recorded_at row"
    by (auto simp add: row_def)
  from sort_key_snoc [OF this]
  have "order_by_recorded_at_desc (filter (\<lambda>r. repo r = rp) (db @ [row])) =
      row # rev (sort_key recorded_at (filter (\<lambda>r. repo r = rp) db))"
    unfolding order_by_recorded_at_desc_def sel by simp
  then have "query_latest (db @ [row]) rp None = Some (run_dict row)"
    unfolding query_latest_def by (simp add: sql_limit_def)
  with rec show ?thesis by (simp add: row_def)
qed

text \<open>
  C9, amended. When the clock reading taken by \<open>record_run\<close> is later than every
  timestamp stored for the same repository, \<open>query_latest\<close> for that repository right after
  returns the new run, with its score unchanged and the returned row id. In every case the
  returned row id is positive and strictly greater than the id of every row already in the
  store.
\<close>

theorem record_then_latest:
  "((\<forall>r \<in> set db. repo r = rp \<longrightarrow> recorded_at r < now) \<longrightarrow>
      (\<exists>d. query_latest (fst (record_run db now s rp br p sh th c1 c2 c3)) rp None = Some d \<and>
           map_of d ''score'' = Some (SReal s) \<and>
           map_of d ''recorded_at'' = Some (SText now) \<and>
           map_of d ''id'' = Some (SInt (snd (record_run db now s rp br p sh th c1 c2 c3))))) \<and>
   (\<forall>r \<in> set db. row_id r < snd (record_run db now s rp br p sh th c1 c2 c3)) \<and>
   0 < snd (record_run db now s rp br p sh th c1 c2 c3)"
proof -
  have new_id: "snd (record_run db now s rp br p sh th c1 c2 c3) = next_row_id db"
    by (simp add: record_run_def Let_def)
  have latest: "\<exists>d. query_latest (fst (record_run db now s rp br p sh th c1 c2 c3)) rp None = Some d \<and>
           map_of d ''score'' = Some (SReal s) \<and>
           map_of d ''recorded_at'' = Some (SText now) \<and>
           map_of d ''id'' = Some (SInt (snd (record_run db now s rp br p sh th c1 c2 c3)))"
    if "\<forall>r \<in> set db. repo r = rp \<longrightarrow> recorded_at r < now"
    unfolding latest_after_record [OF that] by (simp add: run_dict_def)
  from latest next_row_id_fresh [of _ db] next_row_id_pos [of db] show ?thesis
    unfolding new_id by blast
qed

theorem record_then_latest_witness:
  "map_option (\<lambda>d. (map_of d ''score'', map_of d ''id''))
     (query_latest
        (fst (record_run sample_store ''2026-01-06T09:30:01+00:00'' 85 ''org/repo'' ''main''
                (Some 42) ''abc1234'' 70 None None None)) ''org/repo'' None)
     = Some (Some (SReal 85), Some (SInt 4)) \<and>
   snd (record_run sample_store ''2026-01-06T09:30:01+00:00'' 85 ''org/repo'' ''main''
          (Some 42) ''abc1234'' 70 None None None) = 4"
proof -
  have earlier: "\<forall>r \<in> set sample_store. repo r = ''org/repo'' \<longrightarrow>
      recorded_at r < ''2026-01-06T09:30:01+00:00''"
    by (simp add: sample_store_def record_score_def record_run_def Let_def)
  have new_id: "snd (record_run sample_store ''2026-01-06T09:30:01+00:00'' 85 ''org/repo'' ''main''
          (Some 42) ''abc1234'' 70 None None None) = 4"
    by (simp add: sample_store_def record_score_def record_run_def Let_def next_row_id_def)
  from earlier record_then_latest [of sample_store "''org/repo''" "''2026-01-06T09:30:01+00:00''"
      85 "''main''" "Some 42" "''abc1234''" 70 None None None]
  obtain d where "query_latest
        (fst (record_run sample_store ''2026-01-06T09:30:01+00:00'' 85 ''org/repo'' ''main''
                (Some 42) ''abc1234'' 70 None None None)) ''org/repo'' None = Some d"
    and "map_of d ''score'' = Some (SReal 85)"
    and "map_of d ''id'' = Some (SInt (snd (record_run sample_store ''2026-01-06T09:30:01+00:00''
          85 ''org/repo'' ''main'' (Some 42) ''abc1234'' 70 None None None)))"
    by blast
  with new_id show ?thesis by simp
qed

text \<open>
  Without that proviso the round trip fails: \<open>query_latest\<close> orders by the stored clock
  readings, so a run recorded at a reading earlier than a stored one is not the latest.
  Here a run with score 85 is recorded one second before the stored run with score 60.
\<close>

theorem latest_is_not_last_recorded:
  "map_option (\<lambda>d. map_of d ''score'')
     (query_latest
        (fst (record_run (record_score [] ''2026-01-06T09:30:00+00:00'' 60 ''org/repo'')
                ''2026-01-06T09:29:59+00:00'' 85 ''org/repo'' [] None [] 70 None None None))
        ''org/repo'' None)
     = Some (Some (SReal 60))"
  by (simp add: query_latest_def order_by_recorded_at_desc_def sql_limit_def record_score_def
        record_run_def Let_def run_dict_def)


end
